theory Spec2Isabelle
  imports Complex_Main "HOL-Library.Word" "HOL-Library.Signed_Division"
begin

unbundle bit_operations_syntax

section \<open>Data model of the GL renderer (cc/output/gl\_renderer.cc)\<close>

text \<open>
  The renderer is embedded by explicit state passing. Every call the source makes on its
  graphics context (\<open>context_->...\<close>) is appended to a trace of calls kept in the renderer
  state, so that "issues a draw call" is a statement about that trace.

  C++ \<open>float\<close> values are carried as exact rationals: the model never rounds, and a
  division by zero yields 0 where the float would be infinite. The values travel into
  uniform uploads; the decisions of the renderer that the theorems below are about test
  them through geometry helpers only, which are parameters of the model.
\<close>

type_synonym float = rat

datatype GLenum =
    GL_BLEND | GL_SCISSOR_TEST
  | GL_TEXTURE_2D | GL_TEXTURE_EXTERNAL_OES | GL_TEXTURE_RECTANGLE_ARB
  | GL_TEXTURE0 | GL_TEXTURE1 | GL_TEXTURE2 | GL_TEXTURE3
  | GL_TRIANGLES | GL_LINE_LOOP | GL_UNSIGNED_SHORT
  | GL_ZERO | GL_ONE | GL_SRC_ALPHA | GL_ONE_MINUS_SRC_ALPHA
  | GL_FRAMEBUFFER | GL_COLOR_ATTACHMENT0 | GL_COLOR_BUFFER_BIT
  | GL_RGB | GL_RGBA | GL_LINEAR | GL_NEAREST

text \<open>One constructor per method of \<open>WebGraphicsContext3D\<close> (and of the output surface
  and resource provider, where they bind GL objects) that the drawing code calls.\<close>

datatype gl_call =
    Enable GLenum
  | Disable GLenum
  | UseProgram nat
  | Uniform1i int int
  | Uniform1f int float
  | Uniform2f int float float
  | Uniform4f int float float float float
  | Uniform1fv int nat "float list"
  | Uniform2fv int nat "float list"
  | Uniform3fv int nat "float list"
  | Uniform4fv int nat "float list"
  | UniformMatrix3fv int nat bool "float list"
  | UniformMatrix4fv int nat bool "float list"
  | ActiveTexture GLenum
  | BindTexture GLenum nat
  | BlendFunc GLenum GLenum
  | BlendFuncSeparate GLenum GLenum GLenum GLenum
  | LineWidth float
  | DrawElements GLenum nat GLenum nat
  | Scissor int int int int
  | Viewport int int int int
  | BindFramebuffer GLenum nat
  | FramebufferTexture2D GLenum GLenum GLenum nat int
  | ClearColor float float float float
  | Clear GLenum
  | CopyTexImage2D GLenum int GLenum int int int int int
  | Flush
  | ScopedSamplerGL nat GLenum GLenum
  | BindForSampling nat GLenum GLenum
  | OutputSurface_BindFramebuffer

text \<open>Modelled from the spec: the value classes \<open>gfx::Rect\<close>, \<open>gfx::RectF\<close>,
  \<open>gfx::PointF\<close>, \<open>gfx::QuadF\<close> and \<open>gfx::Size\<close> of ui/gfx, which are not among the
  source files. Only their fields and the accessors the renderer reads are given here;
  every other geometry routine is a parameter of the model (record \<open>gfx\<close> below).
  The C++ \<open>int\<close> fields are unbounded integers: no claim depends on their overflow.\<close>

record Rect =
  Rect_x :: int
  Rect_y :: int
  Rect_width :: int
  Rect_height :: int

record RectF =
  RectF_x :: float
  RectF_y :: float
  RectF_width :: float
  RectF_height :: float

record PointF =
  px :: float
  py :: float

record QuadF =
  p1 :: PointF
  p2 :: PointF
  p3 :: PointF
  p4 :: PointF

type_synonym Size = "int \<times> int"

definition Rect_right :: "Rect \<Rightarrow> int" where
  "Rect_right r = Rect_x r + Rect_width r"

definition Rect_bottom :: "Rect \<Rightarrow> int" where
  "Rect_bottom r = Rect_y r + Rect_height r"

definition Rect_size :: "Rect \<Rightarrow> Size" where
  "Rect_size r = (Rect_width r, Rect_height r)"

definition Rect_origin :: "Rect \<Rightarrow> int \<times> int" where
  "Rect_origin r = (Rect_x r, Rect_y r)"

definition Rect_top_right :: "Rect \<Rightarrow> int \<times> int" where
  "Rect_top_right r = (Rect_right r, Rect_y r)"

definition Rect_bottom_left :: "Rect \<Rightarrow> int \<times> int" where
  "Rect_bottom_left r = (Rect_x r, Rect_bottom r)"

definition Rect_bottom_right :: "Rect \<Rightarrow> int \<times> int" where
  "Rect_bottom_right r = (Rect_right r, Rect_bottom r)"

definition PointF_of :: "int \<times> int \<Rightarrow> PointF" where
  "PointF_of p = \<lparr>px = of_int (fst p), py = of_int (snd p)\<rparr>"

definition RectF_of :: "Rect \<Rightarrow> RectF" where
  "RectF_of r = \<lparr>RectF_x = of_int (Rect_x r), RectF_y = of_int (Rect_y r),
                 RectF_width = of_int (Rect_width r), RectF_height = of_int (Rect_height r)\<rparr>"

text \<open>\<open>gfx::QuadF(const gfx::RectF&)\<close>: the four corners, starting at the origin, along
  the top side first.\<close>

definition QuadF_of :: "RectF \<Rightarrow> QuadF" where
  "QuadF_of r =
     \<lparr>p1 = \<lparr>px = RectF_x r, py = RectF_y r\<rparr>,
      p2 = \<lparr>px = RectF_x r + RectF_width r, py = RectF_y r\<rparr>,
      p3 = \<lparr>px = RectF_x r + RectF_width r, py = RectF_y r + RectF_height r\<rparr>,
      p4 = \<lparr>px = RectF_x r, py = RectF_y r + RectF_height r\<rparr>\<rparr>"

definition QuadF_Scale :: "QuadF \<Rightarrow> float \<Rightarrow> float \<Rightarrow> QuadF" where
  "QuadF_Scale q sx sy =
     \<lparr>p1 = \<lparr>px = px (p1 q) * sx, py = py (p1 q) * sy\<rparr>,
      p2 = \<lparr>px = px (p2 q) * sx, py = py (p2 q) * sy\<rparr>,
      p3 = \<lparr>px = px (p3 q) * sx, py = py (p3 q) * sy\<rparr>,
      p4 = \<lparr>px = px (p4 q) * sx, py = py (p4 q) * sy\<rparr>\<rparr>"

text \<open>\<open>SkColor\<close> is a 32-bit ARGB value; \<open>SkColorGetA\<close> and its siblings read one
  byte of it.\<close>

type_synonym SkColor = "32 word"

definition SkColorGetA :: "SkColor \<Rightarrow> float" where
  "SkColorGetA c = of_nat (unat (drop_bit 24 c AND 0xFF))"

definition SkColorGetR :: "SkColor \<Rightarrow> float" where
  "SkColorGetR c = of_nat (unat (drop_bit 16 c AND 0xFF))"

definition SkColorGetG :: "SkColor \<Rightarrow> float" where
  "SkColorGetG c = of_nat (unat (drop_bit 8 c AND 0xFF))"

definition SkColorGetB :: "SkColor \<Rightarrow> float" where
  "SkColorGetB c = of_nat (unat (c AND 0xFF))"

subsection \<open>Shader programs\<close>

text \<open>A program binding is its GL program id and the table of its uniform locations
  (\<open>program->vertex_shader().matrix_location()\<close> is \<open>location p u_matrix\<close>). The
  structs \<open>SolidColorProgramUniforms\<close>, \<open>TileProgramUniforms\<close> and
  \<open>TexTransformTextureProgramBinding\<close> of the source only copy these fields, so the
  model reads them from the program.\<close>

datatype uniform =
    u_matrix | u_color | u_point | u_tex_scale | u_edge | u_sampler | u_alpha
  | u_tex_transform | u_vertex_tex_transform | u_fragment_tex_transform
  | u_vertex_opacity | u_mask_sampler | u_mask_tex_coord_scale | u_mask_tex_coord_offset
  | u_color_matrix | u_color_offset | u_frequency | u_tex_matrix
  | u_y_texture | u_u_texture | u_v_texture | u_yuv_matrix | u_yuv_adj

record Program =
  program :: nat
  location :: "uniform \<Rightarrow> int"

datatype TexCoordPrecision =
  TexCoordPrecisionNA | TexCoordPrecisionMedium | TexCoordPrecisionHigh

datatype ProgramKind =
    TileCheckerboardProgram | DebugBorderProgram | SolidColorProgram | SolidColorProgramAA
  | RenderPassProgram | RenderPassProgramAA | RenderPassMaskProgram | RenderPassMaskProgramAA
  | RenderPassColorMatrixProgram | RenderPassColorMatrixProgramAA
  | RenderPassMaskColorMatrixProgram | RenderPassMaskColorMatrixProgramAA
  | TileProgram | TileProgramOpaque | TileProgramAA | TileProgramSwizzle
  | TileProgramSwizzleOpaque | TileProgramSwizzleAA
  | TextureProgram | TextureProgramFlip | TextureIOSurfaceProgram
  | VideoYUVProgram | VideoStreamTextureProgram

subsection \<open>Quads, render passes and the drawing frame\<close>

text \<open>Modelled from the spec: the quad classes of cc/quads (\<open>DrawQuad\<close> and its
  subclasses), \<open>RenderPass\<close>, \<open>ScopedResource\<close> and \<open>DrawingFrame\<close>, whose headers
  are not among the source files. A quad is read-only input, so each accessor the
  renderer calls on a quad (\<open>quadTransform()\<close>, \<open>visibleContentRect()\<close>, \<open>opacity()\<close>,
  \<open>ShouldDrawWithBlending()\<close>, \<open>IsTopEdge()\<close>, ...) is a field here. A subclass is a
  record extension; fields of the same name in different subclasses carry the
  subclass in their name.\<close>

record 'tr DrawQuad =
  rect :: Rect
  visible_rect :: Rect
  quadTransform :: 'tr
  visibleContentRect :: Rect
  opacity :: float
  ShouldDrawWithBlending :: bool
  IsLeftEdge :: bool
  IsTopEdge :: bool
  IsRightEdge :: bool
  IsBottomEdge :: bool

text \<open>Modelled from the spec: \<open>DrawQuad::IsEdge\<close>; the quad reports an anti-aliasable
  edge when one of its four sides is one.\<close>

definition IsEdge :: "('tr, 'z) DrawQuad_scheme \<Rightarrow> bool" where
  "IsEdge quad \<longleftrightarrow> IsLeftEdge quad \<or> IsTopEdge quad \<or> IsRightEdge quad \<or> IsBottomEdge quad"

record 'tr CheckerboardDrawQuad = "'tr DrawQuad" +
  checkerboard_color :: SkColor

record 'tr DebugBorderDrawQuad = "'tr DrawQuad" +
  border_color :: SkColor
  border_width :: int

datatype Orientation = FLIPPED | UNFLIPPED

record 'tr IOSurfaceDrawQuad = "'tr DrawQuad" +
  io_surface_size :: Size
  io_surface_resource_id :: nat
  orientation :: Orientation

record 'tr ContentDrawQuadBase = "'tr DrawQuad" +
  tex_coord_rect :: RectF
  texture_size :: Size
  swizzle_contents :: bool

record 'tr TileDrawQuad = "'tr ContentDrawQuadBase" +
  tile_resource_id :: nat

record 'tr PictureDrawQuad = "'tr ContentDrawQuadBase" +
  content_rect :: Rect
  contents_scale :: float

record 'tr RenderPassDrawQuad = "'tr DrawQuad" +
  render_pass_id :: nat
  mask_resource_id :: nat
  mask_uv_rect :: RectF
  filters :: "nat list"
  image_filter :: "nat option"
  background_filters :: "nat list"

record 'tr SolidColorDrawQuad = "'tr DrawQuad" +
  solid_color :: SkColor

record 'tr StreamVideoDrawQuad = "'tr DrawQuad" +
  stream_resource_id :: nat
  stream_matrix :: 'tr

record 'tr TextureDrawQuad = "'tr DrawQuad" +
  quad_resource_id :: nat
  premultiplied_alpha :: bool
  uv_top_left :: PointF
  uv_bottom_right :: PointF
  vertex_opacity :: "float \<times> float \<times> float \<times> float"
  flipped :: bool

record 'tr YUVVideoDrawQuad = "'tr DrawQuad" +
  tex_scale :: "float \<times> float"
  y_plane_resource_id :: nat
  u_plane_resource_id :: nat
  v_plane_resource_id :: nat

text \<open>A \<open>const DrawQuad*\<close> with its \<open>material\<close> tag: one constructor per value of
  \<open>DrawQuad::Material\<close>, carrying the subclass \<open>MaterialCast\<close> yields.\<close>

datatype 'tr Quad =
    INVALID "'tr DrawQuad"
  | CHECKERBOARD "'tr CheckerboardDrawQuad"
  | DEBUG_BORDER "'tr DebugBorderDrawQuad"
  | IO_SURFACE_CONTENT "'tr IOSurfaceDrawQuad"
  | PICTURE_CONTENT "'tr PictureDrawQuad"
  | RENDER_PASS "'tr RenderPassDrawQuad"
  | SOLID_COLOR "'tr SolidColorDrawQuad"
  | STREAM_VIDEO_CONTENT "'tr StreamVideoDrawQuad"
  | TEXTURE_CONTENT "'tr TextureDrawQuad"
  | TILED_CONTENT "'tr TileDrawQuad"
  | YUV_VIDEO_CONTENT "'tr YUVVideoDrawQuad"

record RenderPass =
  pass_id :: nat
  output_rect :: Rect
  has_transparent_background :: bool

record ScopedResource =
  res_id :: nat
  res_size :: Size
  res_format :: GLenum

record 'tr DrawingFrame =
  root_render_pass :: RenderPass
  current_render_pass :: "RenderPass option"
  current_texture :: "ScopedResource option"
  projection_matrix :: 'tr
  window_matrix :: 'tr

text \<open>An \<open>SkBitmap\<close> is seen through \<open>getTexture()\<close> only: the handle of its GPU
  texture, if it has one.\<close>

type_synonym SkBitmap = "nat option"

subsection \<open>Renderer state\<close>

text \<open>Modelled from the spec: \<open>GLRenderer::TexturedQuadDrawCache\<close>, declared in
  gl\_renderer.h, which is not among the source files; the fields are those the
  source reads and writes on \<open>draw_cache_\<close>.\<close>

record TexturedQuadDrawCache =
  program_id :: nat
  resource_id :: nat
  use_premultiplied_alpha :: bool
  needs_blending :: bool
  uv_xform_location :: int
  vertex_opacity_location :: int
  matrix_location :: int
  sampler_location :: int
  uv_xform_data :: "float list list"
  vertex_opacity_data :: "float list"
  matrix_data :: "float list list"

record GLRenderer =
  gl_calls :: "gl_call list"
  blend_shadow :: bool
  program_shadow :: nat
  is_scissor_enabled :: bool
  scissor_rect :: Rect
  draw_cache :: TexturedQuadDrawCache
  render_pass_textures :: "nat \<rightharpoonup> ScopedResource"
  offscreen_framebuffer_id :: nat
  current_framebuffer_lock :: "nat option"
  on_demand_tile_raster_bitmap :: Size
  on_demand_tile_raster_resource_id :: nat

subsection \<open>Collaborators\<close>

text \<open>The geometry library (\<open>gfx::Transform\<close>, \<open>gfx::QuadF\<close>, \<open>cc::MathUtil\<close>,
  \<open>cc::LayerQuad\<close>, \<open>DirectRenderer::QuadRectTransform\<close>) is not among the source
  files. Each routine of it that the renderer calls is a field of this record, so that
  every theorem below holds for whatever these routines compute. \<open>'tr\<close> is the type of
  transforms, \<open>'lq\<close> of layer quads and \<open>'ed\<close> of their edges. A routine with an output
  parameter returns it in a pair (\<open>MapQuad\<close> returns the quad and \<open>clipped\<close>,
  \<open>GetInverse\<close> the transform it wrote and whether it inverted).\<close>

record ('tr, 'lq, 'ed) gfx =
  Transform_mul :: "'tr \<Rightarrow> 'tr \<Rightarrow> 'tr"
  Transform_identity :: "'tr"
  FlattenTo2d :: "'tr \<Rightarrow> 'tr"
  IsInvertible :: "'tr \<Rightarrow> bool"
  GetInverse :: "'tr \<Rightarrow> 'tr \<times> bool"
  Translate :: "'tr \<Rightarrow> float \<Rightarrow> float \<Rightarrow> 'tr"
  Scale :: "'tr \<Rightarrow> float \<Rightarrow> float \<Rightarrow> 'tr"
  PreconcatTransform :: "'tr \<Rightarrow> 'tr \<Rightarrow> 'tr"
  asColMajorf :: "'tr \<Rightarrow> float list"
  IsIdentityOrIntegerTranslation :: "'tr \<Rightarrow> bool"
  QuadRectTransform :: "'tr \<Rightarrow> RectF \<Rightarrow> 'tr"
  MapQuad :: "'tr \<Rightarrow> QuadF \<Rightarrow> QuadF \<times> bool"
  MapPoint :: "'tr \<Rightarrow> PointF \<Rightarrow> PointF \<times> bool"
  MapClippedRect :: "'tr \<Rightarrow> RectF \<Rightarrow> RectF"
  IsRectilinear :: "QuadF \<Rightarrow> bool"
  BoundingBox :: "QuadF \<Rightarrow> RectF"
  IsNearestRectWithinDistance :: "RectF \<Rightarrow> float \<Rightarrow> bool"
  IsCounterClockwise :: "QuadF \<Rightarrow> bool"
  ToEnclosingRect :: "RectF \<Rightarrow> Rect"
  Rect_Inset :: "Rect \<Rightarrow> int \<Rightarrow> int \<Rightarrow> int \<Rightarrow> int \<Rightarrow> Rect"
  Rect_Intersect :: "Rect \<Rightarrow> Rect \<Rightarrow> Rect"
  RectF_Inset :: "RectF \<Rightarrow> float \<Rightarrow> float \<Rightarrow> float \<Rightarrow> float \<Rightarrow> RectF"
  LayerQuad_of_QuadF :: "QuadF \<Rightarrow> 'lq"
  LayerQuad_of_edges :: "'ed \<Rightarrow> 'ed \<Rightarrow> 'ed \<Rightarrow> 'ed \<Rightarrow> 'lq"
  InflateAntiAliasingDistance :: "'lq \<Rightarrow> 'lq"
  ToFloatArray :: "'lq \<Rightarrow> float list"
  ToQuadF :: "'lq \<Rightarrow> QuadF"
  Edge :: "PointF \<Rightarrow> PointF \<Rightarrow> 'ed"
  LayerQuad_left :: "'lq \<Rightarrow> 'ed"
  LayerQuad_top :: "'lq \<Rightarrow> 'ed"
  LayerQuad_right :: "'lq \<Rightarrow> 'ed"
  LayerQuad_bottom :: "'lq \<Rightarrow> 'ed"
  Edge_scale :: "'ed \<Rightarrow> float \<Rightarrow> 'ed"

text \<open>The other collaborators, none of them among the source files, as parameters:
  the program cache (\<open>programs k highp\<close> is the program object the getter of kind \<open>k\<close>
  returns, lazily built by \<open>ProgramBinding\<close>), \<open>TexCoordPrecisionRequired\<close>, the
  resource provider (\<open>texture_id\<close> is what a scoped lock on a resource returns,
  \<open>CreateTexture\<close> and \<open>CreateGLTexture\<close> the id of a new resource, 0 when the
  allocation fails), the filter evaluator (\<open>RenderSurfaceFilters::Apply\<close>, the Skia
  canvas of \<open>ApplyImageFilter\<close>, \<open>WebFilterOperations::getOutsets\<close>, the colour-matrix
  queries on an \<open>SkImageFilter\<close>) and, of \<open>DirectRenderer\<close>, \<open>InitializeMatrices\<close> and
  \<open>UseRenderPass\<close>. Calls that these collaborators make on the graphics context are
  theirs and are not part of the trace. \<open>using_egl_image\<close> is the capability of that
  name, which \<open>Initialize\<close> reads off the extension string of the context and which
  does not change afterwards.\<close>

record ('tr, 'lq, 'ed) env =
  gfx :: "('tr, 'lq, 'ed) gfx"
  programs :: "ProgramKind \<Rightarrow> bool \<Rightarrow> Program"
  TexCoordPrecisionRequired :: "int \<times> int \<Rightarrow> TexCoordPrecision"
  texture_id :: "nat \<Rightarrow> nat"
  CreateTexture :: "Size \<Rightarrow> GLenum \<Rightarrow> nat"
  CreateGLTexture :: "Size \<Rightarrow> nat"
  has_offscreen_GrContext :: bool
  using_egl_image :: bool
  RenderSurfaceFilters_Apply :: "nat list \<Rightarrow> nat \<Rightarrow> Size \<Rightarrow> SkBitmap"
  accessBitmap :: "nat \<Rightarrow> nat \<Rightarrow> Size \<Rightarrow> SkBitmap"
  getOutsets :: "nat list \<Rightarrow> int \<times> int \<times> int \<times> int"
  asColorMatrix :: "nat \<Rightarrow> (nat \<Rightarrow> float) option"
  getInput0 :: "nat \<Rightarrow> bool"
  InitializeMatrices :: "'tr DrawingFrame \<Rightarrow> Rect \<Rightarrow> bool \<Rightarrow> 'tr DrawingFrame"
  UseRenderPass :: "'tr DrawingFrame \<Rightarrow> RenderPass \<Rightarrow> GLRenderer
                      \<Rightarrow> 'tr DrawingFrame \<times> GLRenderer"

text \<open>The getters \<open>GetTextureProgram(precision)\<close> and their siblings pick the high
  precision object exactly when \<open>precision == TexCoordPrecisionHigh\<close>. They create the
  object on first use and initialise it through \<open>ProgramBinding\<close>, which is not among
  the source files: the model takes the object they return as given, whatever its
  program id is.\<close>

definition GetProgram ::
  "('tr, 'lq, 'ed) env \<Rightarrow> ProgramKind \<Rightarrow> TexCoordPrecision \<Rightarrow> Program" where
  "GetProgram env k precision = programs env k (precision = TexCoordPrecisionHigh)"

datatype error = NullPointerDereference

section \<open>The renderer's operations\<close>

text \<open>\<open>DCHECK\<close>s and \<open>#ifndef NDEBUG\<close> blocks are those of a release build: absent.\<close>

definition kAntiAliasingEpsilon :: float where
  "kAntiAliasingEpsilon = 1 / 1024"

text \<open>\<open>GLC(context, call)\<close>: the call is made on the graphics context.\<close>

definition GLC :: "gl_call \<Rightarrow> GLRenderer \<Rightarrow> GLRenderer" where
  "GLC c s = s\<lparr>gl_calls := gl_calls s @ [c]\<rparr>"

definition SetBlendEnabled :: "bool \<Rightarrow> GLRenderer \<Rightarrow> GLRenderer" where
  "SetBlendEnabled enabled s =
     (if enabled = blend_shadow s then s
      else (if enabled then GLC (Enable GL_BLEND) s
            else GLC (Disable GL_BLEND) s)\<lparr>blend_shadow := enabled\<rparr>)"

definition blend_enabled :: "GLRenderer \<Rightarrow> bool" where
  "blend_enabled s = blend_shadow s"

definition SetUseProgram :: "nat \<Rightarrow> GLRenderer \<Rightarrow> GLRenderer" where
  "SetUseProgram prog s =
     (if prog = program_shadow s then s
      else (GLC (UseProgram prog) s)\<lparr>program_shadow := prog\<rparr>)"

definition SetShaderOpacity :: "float \<Rightarrow> int \<Rightarrow> GLRenderer \<Rightarrow> GLRenderer" where
  "SetShaderOpacity opac alpha_location s =
     (if alpha_location \<noteq> - 1 then GLC (Uniform1f alpha_location opac) s else s)"

definition SetShaderQuadF :: "QuadF \<Rightarrow> int \<Rightarrow> GLRenderer \<Rightarrow> GLRenderer" where
  "SetShaderQuadF quad quad_location s =
     (if quad_location = - 1 then s
      else GLC (Uniform2fv quad_location 4
                  [px (p1 quad), py (p1 quad), px (p2 quad), py (p2 quad),
                   px (p3 quad), py (p3 quad), px (p4 quad), py (p4 quad)]) s)"

definition DrawQuadGeometry ::
  "('tr, 'lq, 'ed) env \<Rightarrow> 'tr DrawingFrame \<Rightarrow> 'tr \<Rightarrow> RectF \<Rightarrow> int
     \<Rightarrow> GLRenderer \<Rightarrow> GLRenderer" where
  "DrawQuadGeometry env frame draw_transform quad_rect matrix_loc s =
     (let quad_rect_matrix = QuadRectTransform (gfx env) draw_transform quad_rect;
          gl_matrix = asColMajorf (gfx env)
                        (Transform_mul (gfx env) (projection_matrix frame) quad_rect_matrix);
          s = GLC (UniformMatrix4fv matrix_loc 1 False gl_matrix) s
      in GLC (DrawElements GL_TRIANGLES 6 GL_UNSIGNED_SHORT 0) s)"

subsection \<open>The texture batching cache\<close>

definition FlushTextureQuadCache :: "('tr, 'lq, 'ed) env \<Rightarrow> GLRenderer \<Rightarrow> GLRenderer" where
  "FlushTextureQuadCache env s =
     (if program_id (draw_cache s) = 0 then s
      else
        let c = draw_cache s;
            s = SetBlendEnabled (needs_blending c) s;
            s = SetUseProgram (program_id c) s;
            s = GLC (Uniform1i (sampler_location c) 0) s;
            s = GLC (BindTexture GL_TEXTURE_2D (texture_id env (resource_id c))) s;
            s = (if \<not> use_premultiplied_alpha c
                 then GLC (BlendFuncSeparate GL_SRC_ALPHA GL_ONE_MINUS_SRC_ALPHA GL_ZERO GL_ONE) s
                 else s);
            s = GLC (UniformMatrix4fv (matrix_location c) (length (matrix_data c)) False
                       (concat (matrix_data c))) s;
            s = GLC (Uniform4fv (uv_xform_location c) (length (uv_xform_data c))
                       (concat (uv_xform_data c))) s;
            s = GLC (Uniform1fv (vertex_opacity_location c) (length (vertex_opacity_data c))
                       (vertex_opacity_data c)) s;
            s = GLC (DrawElements GL_TRIANGLES (6 * length (matrix_data c)) GL_UNSIGNED_SHORT 0) s;
            s = (if \<not> use_premultiplied_alpha c
                 then GLC (BlendFunc GL_ONE GL_ONE_MINUS_SRC_ALPHA) s
                 else s)
        in s\<lparr>draw_cache := c\<lparr>program_id := 0, uv_xform_data := [],
                                vertex_opacity_data := [], matrix_data := []\<rparr>\<rparr>)"

text \<open>The program \<open>EnqueueTextureQuad\<close> selects for a quad.\<close>

definition texture_binding ::
  "('tr, 'lq, 'ed) env \<Rightarrow> 'tr TextureDrawQuad \<Rightarrow> Program" where
  "texture_binding env quad =
     (let tex_coord_precision =
            TexCoordPrecisionRequired env (Rect_bottom_right (visibleContentRect quad))
      in if flipped quad then GetProgram env TextureProgramFlip tex_coord_precision
         else GetProgram env TextureProgram tex_coord_precision)"

text \<open>The condition of the \<open>if\<close> in \<open>EnqueueTextureQuad\<close>: the quad cannot join
  the accumulated batch.\<close>

definition starts_new_batch ::
  "('tr, 'lq, 'ed) env \<Rightarrow> TexturedQuadDrawCache \<Rightarrow> 'tr TextureDrawQuad \<Rightarrow> bool" where
  "starts_new_batch env c quad \<longleftrightarrow>
     program_id c \<noteq> program (texture_binding env quad) \<or>
     resource_id c \<noteq> quad_resource_id quad \<or>
     use_premultiplied_alpha c \<noteq> premultiplied_alpha quad \<or>
     needs_blending c \<noteq> ShouldDrawWithBlending quad \<or>
     length (matrix_data c) \<ge> 8"

definition EnqueueTextureQuad ::
  "('tr, 'lq, 'ed) env \<Rightarrow> 'tr DrawingFrame \<Rightarrow> 'tr TextureDrawQuad
     \<Rightarrow> GLRenderer \<Rightarrow> GLRenderer" where
  "EnqueueTextureQuad env frame quad s =
     (let binding = texture_binding env quad;
          s = (if starts_new_batch env (draw_cache s) quad then
                 let s = FlushTextureQuadCache env s
                 in s\<lparr>draw_cache := (draw_cache s)
                        \<lparr>program_id := program binding,
                         resource_id := quad_resource_id quad,
                         use_premultiplied_alpha := premultiplied_alpha quad,
                         needs_blending := ShouldDrawWithBlending quad,
                         uv_xform_location := location binding u_tex_transform,
                         vertex_opacity_location := location binding u_vertex_opacity,
                         matrix_location := location binding u_matrix,
                         sampler_location := location binding u_sampler\<rparr>\<rparr>
               else s);
          uv0 = uv_top_left quad;
          uv1 = uv_bottom_right quad;
          uv = [px uv0, py uv0, px uv1 - px uv0, py uv1 - py uv0];
          opac = opacity quad;
          (v0, v1, v2, v3) = vertex_opacity quad;
          quad_rect_matrix = QuadRectTransform (gfx env) (quadTransform quad) (RectF_of (rect quad));
          quad_rect_matrix = Transform_mul (gfx env) (projection_matrix frame) quad_rect_matrix;
          m = asColMajorf (gfx env) quad_rect_matrix;
          c = draw_cache s
      in s\<lparr>draw_cache := c
            \<lparr>uv_xform_data := uv_xform_data c @ [uv],
             vertex_opacity_data :=
               vertex_opacity_data c @ [v0 * opac, v1 * opac, v2 * opac, v3 * opac],
             matrix_data := matrix_data c @ [m]\<rparr>\<rparr>)"

definition FinishDrawingQuadList :: "('tr, 'lq, 'ed) env \<Rightarrow> GLRenderer \<Rightarrow> GLRenderer" where
  "FinishDrawingQuadList env s = FlushTextureQuadCache env s"

subsection \<open>Scissor state and framebuffer binding\<close>

definition EnsureScissorTestEnabled ::
  "('tr, 'lq, 'ed) env \<Rightarrow> GLRenderer \<Rightarrow> GLRenderer" where
  "EnsureScissorTestEnabled env s =
     (if is_scissor_enabled s then s
      else
        let s = FlushTextureQuadCache env s;
            s = GLC (Enable GL_SCISSOR_TEST) s
        in s\<lparr>is_scissor_enabled := True\<rparr>)"

definition EnsureScissorTestDisabled ::
  "('tr, 'lq, 'ed) env \<Rightarrow> GLRenderer \<Rightarrow> GLRenderer" where
  "EnsureScissorTestDisabled env s =
     (if \<not> is_scissor_enabled s then s
      else
        let s = FlushTextureQuadCache env s;
            s = GLC (Disable GL_SCISSOR_TEST) s
        in s\<lparr>is_scissor_enabled := False\<rparr>)"

definition SetScissorTestRect ::
  "('tr, 'lq, 'ed) env \<Rightarrow> Rect \<Rightarrow> GLRenderer \<Rightarrow> GLRenderer" where
  "SetScissorTestRect env scissor s =
     (let s = EnsureScissorTestEnabled env s
      in if scissor = scissor_rect s then s
         else
           let s = s\<lparr>scissor_rect := scissor\<rparr>;
               s = FlushTextureQuadCache env s
           in GLC (Scissor (Rect_x scissor) (Rect_y scissor)
                     (Rect_width scissor) (Rect_height scissor)) s)"

definition SetDrawViewportSize :: "Size \<Rightarrow> GLRenderer \<Rightarrow> GLRenderer" where
  "SetDrawViewportSize viewport_size s =
     GLC (Viewport 0 0 (fst viewport_size) (snd viewport_size)) s"

definition FlippedFramebuffer :: bool where
  "FlippedFramebuffer = True"

definition BindFramebufferToOutputSurface ::
  "'tr DrawingFrame \<Rightarrow> GLRenderer \<Rightarrow> GLRenderer" where
  "BindFramebufferToOutputSurface frame s =
     GLC OutputSurface_BindFramebuffer (s\<lparr>current_framebuffer_lock := None\<rparr>)"

definition BindFramebufferToTexture ::
  "('tr, 'lq, 'ed) env \<Rightarrow> 'tr DrawingFrame \<Rightarrow> ScopedResource \<Rightarrow> Rect \<Rightarrow> GLRenderer
     \<Rightarrow> bool \<times> 'tr DrawingFrame \<times> GLRenderer" where
  "BindFramebufferToTexture env frame texture framebuffer_rect s =
     (let s = GLC (BindFramebuffer GL_FRAMEBUFFER (offscreen_framebuffer_id s)) s;
          s = s\<lparr>current_framebuffer_lock := Some (res_id texture)\<rparr>;
          tex = texture_id env (res_id texture);
          s = GLC (FramebufferTexture2D GL_FRAMEBUFFER GL_COLOR_ATTACHMENT0 GL_TEXTURE_2D tex 0) s;
          frame = InitializeMatrices env frame framebuffer_rect False;
          s = SetDrawViewportSize (Rect_size framebuffer_rect) s
      in (True, frame, s))"

definition UseScopedTexture ::
  "('tr, 'lq, 'ed) env \<Rightarrow> 'tr DrawingFrame \<Rightarrow> ScopedResource \<Rightarrow> Rect \<Rightarrow> GLRenderer
     \<Rightarrow> bool \<times> 'tr DrawingFrame \<times> GLRenderer" where
  "UseScopedTexture env frame texture viewport_rect s =
     (let frame = frame\<lparr>current_render_pass := None, current_texture := Some texture\<rparr>
      in BindFramebufferToTexture env frame texture viewport_rect s)"

subsection \<open>Anti-aliasing setup\<close>

text \<open>\<open>SetupQuadForAntialiasing\<close> returns its result together with its two output
  parameters, \<open>*local_quad\<close> and \<open>edge[24]\<close>; \<open>ToFloatArray\<close> writes twelve floats.\<close>

definition SetupQuadForAntialiasing ::
  "('tr, 'lq, 'ed) gfx \<Rightarrow> 'tr \<Rightarrow> ('tr, 'z) DrawQuad_scheme \<Rightarrow> QuadF \<Rightarrow> float list
     \<Rightarrow> bool \<times> QuadF \<times> float list" where
  "SetupQuadForAntialiasing g device_transform quad local_quad edge =
     (let tile_rect = visible_rect quad;
          (device_layer_quad, clipped) =
             MapQuad g device_transform (QuadF_of (RectF_of (visibleContentRect quad)));
          is_axis_aligned_in_target = IsRectilinear g device_layer_quad;
          is_nearest_rect_within_epsilon =
             (is_axis_aligned_in_target \<and>
              IsNearestRectWithinDistance g (BoundingBox g device_layer_quad) kAntiAliasingEpsilon);
          use_aa = (\<not> clipped \<and> \<not> is_nearest_rect_within_epsilon \<and> IsEdge quad)
      in if \<not> use_aa then (False, local_quad, edge)
         else
           let device_layer_bounds =
                 InflateAntiAliasingDistance g
                   (LayerQuad_of_QuadF g (QuadF_of (BoundingBox g device_layer_quad)));
               device_layer_edges =
                 InflateAntiAliasingDistance g (LayerQuad_of_QuadF g device_layer_quad);
               edge = ToFloatArray g device_layer_edges @ ToFloatArray g device_layer_bounds;
               bottom_right =
                 fst (MapPoint g device_transform (PointF_of (Rect_bottom_right tile_rect)));
               bottom_left =
                 fst (MapPoint g device_transform (PointF_of (Rect_bottom_left tile_rect)));
               top_left =
                 fst (MapPoint g device_transform (PointF_of (Rect_origin tile_rect)));
               top_right =
                 fst (MapPoint g device_transform (PointF_of (Rect_top_right tile_rect)));
               bottom_edge = Edge g bottom_right bottom_left;
               left_edge = Edge g bottom_left top_left;
               top_edge = Edge g top_left top_right;
               right_edge = Edge g top_right bottom_right;
               top_edge = (if IsTopEdge quad \<and> Rect_y tile_rect = Rect_y (rect quad)
                           then LayerQuad_top g device_layer_edges else top_edge);
               left_edge = (if IsLeftEdge quad \<and> Rect_x tile_rect = Rect_x (rect quad)
                            then LayerQuad_left g device_layer_edges else left_edge);
               right_edge = (if IsRightEdge quad \<and> Rect_right tile_rect = Rect_right (rect quad)
                             then LayerQuad_right g device_layer_edges else right_edge);
               bottom_edge = (if IsBottomEdge quad \<and> Rect_bottom tile_rect = Rect_bottom (rect quad)
                              then LayerQuad_bottom g device_layer_edges else bottom_edge);
               sign = (if IsCounterClockwise g (QuadF_of (RectF_of tile_rect)) then - 1 else 1);
               bottom_edge = Edge_scale g bottom_edge sign;
               left_edge = Edge_scale g left_edge sign;
               top_edge = Edge_scale g top_edge sign;
               right_edge = Edge_scale g right_edge sign;
               device_quad = LayerQuad_of_edges g left_edge top_edge right_edge bottom_edge;
               inverse_device_transform = fst (GetInverse g device_transform);
               local_quad = fst (MapQuad g inverse_device_transform (ToQuadF g device_quad))
           in (True, local_quad, edge))"

subsection \<open>Solid colour and content quads\<close>

text \<open>\<open>float edge[24]\<close> is a local array without initialiser; it is read only after
  \<open>SetupQuadForAntialiasing\<close> has written it.\<close>

definition uninitialized_edge :: "float list" where
  "uninitialized_edge = replicate 24 0"

definition DrawSolidColorQuad ::
  "('tr, 'lq, 'ed) env \<Rightarrow> 'tr DrawingFrame \<Rightarrow> 'tr SolidColorDrawQuad
     \<Rightarrow> GLRenderer \<Rightarrow> GLRenderer" where
  "DrawSolidColorQuad env frame quad s =
     (let s = SetBlendEnabled (ShouldDrawWithBlending quad) s;
          tile_rect = visible_rect quad;
          device_transform =
            FlattenTo2d (gfx env)
              (Transform_mul (gfx env)
                 (Transform_mul (gfx env) (window_matrix frame) (projection_matrix frame))
                 (quadTransform quad))
      in if \<not> IsInvertible (gfx env) device_transform then s
         else
           let local_quad = QuadF_of (RectF_of tile_rect);
               (use_aa, local_quad, edge) =
                  SetupQuadForAntialiasing (gfx env) device_transform quad local_quad
                    uninitialized_edge;
               uniforms = (if use_aa then GetProgram env SolidColorProgramAA TexCoordPrecisionNA
                           else GetProgram env SolidColorProgram TexCoordPrecisionNA);
               s = SetUseProgram (program uniforms) s;
               color = solid_color quad;
               opac = opacity quad;
               alpha = (SkColorGetA color * (1 / 255)) * opac;
               s = GLC (Uniform4f (location uniforms u_color)
                          ((SkColorGetR color * (1 / 255)) * alpha)
                          ((SkColorGetG color * (1 / 255)) * alpha)
                          ((SkColorGetB color * (1 / 255)) * alpha)
                          alpha) s;
               s = (if use_aa then GLC (Uniform3fv (location uniforms u_edge) 8 edge) s else s);
               s = SetBlendEnabled (ShouldDrawWithBlending quad \<or> use_aa) s;
               local_quad = QuadF_Scale local_quad (1 / of_int (Rect_width tile_rect))
                              (1 / of_int (Rect_height tile_rect));
               s = SetShaderQuadF local_quad (location uniforms u_point) s;
               centered_rect =
                 \<lparr>RectF_x = - (1 / 2) * of_int (Rect_width tile_rect),
                  RectF_y = - (1 / 2) * of_int (Rect_height tile_rect),
                  RectF_width = of_int (Rect_width tile_rect),
                  RectF_height = of_int (Rect_height tile_rect)\<rparr>
           in DrawQuadGeometry env frame (quadTransform quad) centered_rect
                (location uniforms u_matrix) s)"

text \<open>The program \<open>DrawContentQuad\<close> selects.\<close>

definition tile_program_kind :: "bool \<Rightarrow> bool \<Rightarrow> bool \<Rightarrow> ProgramKind" where
  "tile_program_kind use_aa blending swizzle =
     (if use_aa then (if swizzle then TileProgramSwizzleAA else TileProgramAA)
      else if blending then (if swizzle then TileProgramSwizzle else TileProgram)
      else (if swizzle then TileProgramSwizzleOpaque else TileProgramOpaque))"

definition DrawContentQuad ::
  "('tr, 'lq, 'ed) env \<Rightarrow> 'tr DrawingFrame \<Rightarrow> ('tr, 'z) ContentDrawQuadBase_scheme \<Rightarrow> nat
     \<Rightarrow> GLRenderer \<Rightarrow> GLRenderer" where
  "DrawContentQuad env frame quad resource s =
     (let tile_rect = visible_rect quad;
          tex_coord = tex_coord_rect quad;
          tex_to_geom_scale_x = of_int (Rect_width (rect quad)) / RectF_width tex_coord;
          tex_to_geom_scale_y = of_int (Rect_height (rect quad)) / RectF_height tex_coord;
          top_left_diff_x = Rect_x tile_rect - Rect_x (rect quad);
          top_left_diff_y = Rect_y tile_rect - Rect_y (rect quad);
          bottom_right_diff_x = Rect_right tile_rect - Rect_right (rect quad);
          bottom_right_diff_y = Rect_bottom tile_rect - Rect_bottom (rect quad);
          tex_coord = RectF_Inset (gfx env) tex_coord
                        (of_int top_left_diff_x / tex_to_geom_scale_x)
                        (of_int top_left_diff_y / tex_to_geom_scale_y)
                        (of_int (- bottom_right_diff_x) / tex_to_geom_scale_x)
                        (of_int (- bottom_right_diff_y) / tex_to_geom_scale_y);
          clamp_geom_rect = RectF_of tile_rect;
          clamp_tex_rect = tex_coord;
          tex_clamp_x = min (1 / 2) ((1 / 2) * RectF_width clamp_tex_rect - kAntiAliasingEpsilon);
          tex_clamp_y = min (1 / 2) ((1 / 2) * RectF_height clamp_tex_rect - kAntiAliasingEpsilon);
          geom_clamp_x = min (tex_clamp_x * tex_to_geom_scale_x)
                           ((1 / 2) * RectF_width clamp_geom_rect - kAntiAliasingEpsilon);
          geom_clamp_y = min (tex_clamp_y * tex_to_geom_scale_y)
                           ((1 / 2) * RectF_height clamp_geom_rect - kAntiAliasingEpsilon);
          clamp_geom_rect = RectF_Inset (gfx env) clamp_geom_rect
                              geom_clamp_x geom_clamp_y geom_clamp_x geom_clamp_y;
          clamp_tex_rect = RectF_Inset (gfx env) clamp_tex_rect
                             tex_clamp_x tex_clamp_y tex_clamp_x tex_clamp_y;
          vertex_tex_translate_x = - RectF_x clamp_geom_rect / RectF_width clamp_geom_rect;
          vertex_tex_translate_y = - RectF_y clamp_geom_rect / RectF_height clamp_geom_rect;
          vertex_tex_scale_x = of_int (Rect_width tile_rect) / RectF_width clamp_geom_rect;
          vertex_tex_scale_y = of_int (Rect_height tile_rect) / RectF_height clamp_geom_rect;
          tex_coord_precision = TexCoordPrecisionRequired env (texture_size quad);
          fragment_tex_translate_x = RectF_x clamp_tex_rect / of_int (fst (texture_size quad));
          fragment_tex_translate_y = RectF_y clamp_tex_rect / of_int (snd (texture_size quad));
          fragment_tex_scale_x = RectF_width clamp_tex_rect / of_int (fst (texture_size quad));
          fragment_tex_scale_y = RectF_height clamp_tex_rect / of_int (snd (texture_size quad));
          device_transform =
            FlattenTo2d (gfx env)
              (Transform_mul (gfx env)
                 (Transform_mul (gfx env) (window_matrix frame) (projection_matrix frame))
                 (quadTransform quad))
      in if \<not> IsInvertible (gfx env) device_transform then s
         else
           let local_quad = QuadF_of (RectF_of tile_rect);
               (use_aa, local_quad, edge) =
                  SetupQuadForAntialiasing (gfx env) device_transform quad local_quad
                    uninitialized_edge;
               uniforms = GetProgram env
                            (tile_program_kind use_aa (ShouldDrawWithBlending quad)
                               (swizzle_contents quad))
                            tex_coord_precision;
               s = SetUseProgram (program uniforms) s;
               s = GLC (Uniform1i (location uniforms u_sampler) 0) s;
               scaled = (tex_to_geom_scale_x \<noteq> 1 \<or> tex_to_geom_scale_y \<noteq> 1);
               filter = (if use_aa \<or> scaled \<or>
                            \<not> IsIdentityOrIntegerTranslation (gfx env) (quadTransform quad)
                         then GL_LINEAR else GL_NEAREST);
               s = GLC (ScopedSamplerGL resource GL_TEXTURE_2D filter) s;
               s = (if use_aa then
                      let s = GLC (Uniform3fv (location uniforms u_edge) 8 edge) s;
                          s = GLC (Uniform4f (location uniforms u_vertex_tex_transform)
                                     vertex_tex_translate_x vertex_tex_translate_y
                                     vertex_tex_scale_x vertex_tex_scale_y) s
                      in GLC (Uniform4f (location uniforms u_fragment_tex_transform)
                                fragment_tex_translate_x fragment_tex_translate_y
                                fragment_tex_scale_x fragment_tex_scale_y) s
                    else
                      GLC (Uniform4f (location uniforms u_vertex_tex_transform)
                             (vertex_tex_translate_x * fragment_tex_scale_x
                                + fragment_tex_translate_x)
                             (vertex_tex_translate_y * fragment_tex_scale_y
                                + fragment_tex_translate_y)
                             (vertex_tex_scale_x * fragment_tex_scale_x)
                             (vertex_tex_scale_y * fragment_tex_scale_y)) s);
               s = SetBlendEnabled (ShouldDrawWithBlending quad \<or> use_aa) s;
               local_quad = QuadF_Scale local_quad (1 / of_int (Rect_width tile_rect))
                              (1 / of_int (Rect_height tile_rect));
               s = SetShaderOpacity (opacity quad) (location uniforms u_alpha) s;
               s = SetShaderQuadF local_quad (location uniforms u_point) s;
               centered_rect =
                 \<lparr>RectF_x = - (1 / 2) * of_int (Rect_width tile_rect),
                  RectF_y = - (1 / 2) * of_int (Rect_height tile_rect),
                  RectF_width = of_int (Rect_width tile_rect),
                  RectF_height = of_int (Rect_height tile_rect)\<rparr>
           in DrawQuadGeometry env frame (quadTransform quad) centered_rect
                (location uniforms u_matrix) s)"

definition DrawTileQuad ::
  "('tr, 'lq, 'ed) env \<Rightarrow> 'tr DrawingFrame \<Rightarrow> 'tr TileDrawQuad \<Rightarrow> GLRenderer \<Rightarrow> GLRenderer" where
  "DrawTileQuad env frame quad s = DrawContentQuad env frame quad (tile_resource_id quad) s"

text \<open>The raster of the picture into the bitmap, its upload (\<open>SetPixels\<close>) and the
  deletion of the previous texture happen in the picture pile and the resource
  provider; the renderer's own state keeps the size of the bitmap and the id of the
  texture.\<close>

definition DrawPictureQuad ::
  "('tr, 'lq, 'ed) env \<Rightarrow> 'tr DrawingFrame \<Rightarrow> 'tr PictureDrawQuad \<Rightarrow> GLRenderer \<Rightarrow> GLRenderer" where
  "DrawPictureQuad env frame quad s =
     (let s = (if fst (on_demand_tile_raster_bitmap s) \<noteq> fst (texture_size quad) \<or>
                  snd (on_demand_tile_raster_bitmap s) \<noteq> snd (texture_size quad)
               then s\<lparr>on_demand_tile_raster_bitmap := texture_size quad,
                      on_demand_tile_raster_resource_id := CreateGLTexture env (texture_size quad)\<rparr>
               else s)
      in DrawContentQuad env frame quad (on_demand_tile_raster_resource_id s) s)"

subsection \<open>Checkerboard, debug border, video and IOSurface quads\<close>

text \<open>\<open>%\<close> on C++ integers truncates towards zero: \<open>smod\<close>.\<close>

definition DrawCheckerboardQuad ::
  "('tr, 'lq, 'ed) env \<Rightarrow> 'tr DrawingFrame \<Rightarrow> 'tr CheckerboardDrawQuad
     \<Rightarrow> GLRenderer \<Rightarrow> GLRenderer" where
  "DrawCheckerboardQuad env frame quad s =
     (let s = SetBlendEnabled (ShouldDrawWithBlending quad) s;
          prog = GetProgram env TileCheckerboardProgram TexCoordPrecisionNA;
          s = SetUseProgram (program prog) s;
          color = checkerboard_color quad;
          s = GLC (Uniform4f (location prog u_color)
                     (SkColorGetR color * (1 / 255))
                     (SkColorGetG color * (1 / 255))
                     (SkColorGetB color * (1 / 255))
                     1) s;
          checkerboard_width = (16 :: int);
          frequency = 1 / of_int checkerboard_width;
          tile_rect = rect quad;
          tex_offset_x = of_int (Rect_x tile_rect smod checkerboard_width);
          tex_offset_y = of_int (Rect_y tile_rect smod checkerboard_width);
          tex_scale_x = of_int (Rect_width tile_rect);
          tex_scale_y = of_int (Rect_height tile_rect);
          s = GLC (Uniform4f (location prog u_tex_transform)
                     tex_offset_x tex_offset_y tex_scale_x tex_scale_y) s;
          s = GLC (Uniform1f (location prog u_frequency) frequency) s;
          s = SetShaderOpacity (opacity quad) (location prog u_alpha) s
      in DrawQuadGeometry env frame (quadTransform quad) (RectF_of (rect quad))
           (location prog u_matrix) s)"

definition DrawDebugBorderQuad ::
  "('tr, 'lq, 'ed) env \<Rightarrow> 'tr DrawingFrame \<Rightarrow> 'tr DebugBorderDrawQuad
     \<Rightarrow> GLRenderer \<Rightarrow> GLRenderer" where
  "DrawDebugBorderQuad env frame quad s =
     (let s = SetBlendEnabled (ShouldDrawWithBlending quad) s;
          prog = GetProgram env DebugBorderProgram TexCoordPrecisionNA;
          s = SetUseProgram (program prog) s;
          layer_rect = rect quad;
          render_matrix = quadTransform quad;
          render_matrix = Translate (gfx env) render_matrix
                            ((1 / 2) * of_int (Rect_width layer_rect) + of_int (Rect_x layer_rect))
                            ((1 / 2) * of_int (Rect_height layer_rect) + of_int (Rect_y layer_rect));
          render_matrix = Scale (gfx env) render_matrix
                            (of_int (Rect_width layer_rect)) (of_int (Rect_height layer_rect));
          gl_matrix = asColMajorf (gfx env)
                        (Transform_mul (gfx env) (projection_matrix frame) render_matrix);
          s = GLC (UniformMatrix4fv (location prog u_matrix) 1 False gl_matrix) s;
          color = border_color quad;
          alpha = SkColorGetA color * (1 / 255);
          s = GLC (Uniform4f (location prog u_color)
                     ((SkColorGetR color * (1 / 255)) * alpha)
                     ((SkColorGetG color * (1 / 255)) * alpha)
                     ((SkColorGetB color * (1 / 255)) * alpha)
                     alpha) s;
          s = GLC (LineWidth (of_int (border_width quad))) s
      in GLC (DrawElements GL_LINE_LOOP 4 GL_UNSIGNED_SHORT 0) s)"

definition DrawYUVVideoQuad ::
  "('tr, 'lq, 'ed) env \<Rightarrow> 'tr DrawingFrame \<Rightarrow> 'tr YUVVideoDrawQuad
     \<Rightarrow> GLRenderer \<Rightarrow> GLRenderer" where
  "DrawYUVVideoQuad env frame quad s =
     (let s = SetBlendEnabled (ShouldDrawWithBlending quad) s;
          tex_coord_precision =
            TexCoordPrecisionRequired env (Rect_bottom_right (visibleContentRect quad));
          prog = GetProgram env VideoYUVProgram tex_coord_precision;
          s = GLC (ActiveTexture GL_TEXTURE1) s;
          s = GLC (ScopedSamplerGL (y_plane_resource_id quad) GL_TEXTURE_2D GL_LINEAR) s;
          s = GLC (ActiveTexture GL_TEXTURE2) s;
          s = GLC (ScopedSamplerGL (u_plane_resource_id quad) GL_TEXTURE_2D GL_LINEAR) s;
          s = GLC (ActiveTexture GL_TEXTURE3) s;
          s = GLC (ScopedSamplerGL (v_plane_resource_id quad) GL_TEXTURE_2D GL_LINEAR) s;
          s = SetUseProgram (program prog) s;
          s = GLC (Uniform2f (location prog u_tex_scale)
                     (fst (tex_scale quad)) (snd (tex_scale quad))) s;
          s = GLC (Uniform1i (location prog u_y_texture) 1) s;
          s = GLC (Uniform1i (location prog u_u_texture) 2) s;
          s = GLC (Uniform1i (location prog u_v_texture) 3) s;
          yuv_to_rgb = [1164 / 1000, 1164 / 1000, 1164 / 1000,
                        0, - (391 / 1000), 2018 / 1000,
                        1596 / 1000, - (813 / 1000), 0];
          s = GLC (UniformMatrix3fv (location prog u_yuv_matrix) 1 False yuv_to_rgb) s;
          yuv_adjust = [- (625 / 10000), - (1 / 2), - (1 / 2)];
          s = GLC (Uniform3fv (location prog u_yuv_adj) 1 yuv_adjust) s;
          s = SetShaderOpacity (opacity quad) (location prog u_alpha) s;
          s = DrawQuadGeometry env frame (quadTransform quad) (RectF_of (rect quad))
                (location prog u_matrix) s
      in GLC (ActiveTexture GL_TEXTURE0) s)"

text \<open>\<open>GetVideoStreamTextureProgram\<close> returns \<open>NULL\<close> when the capability
  \<open>using_egl_image\<close> is off, and \<open>DrawStreamVideoQuad\<close> dereferences what it returns.\<close>

definition DrawStreamVideoQuad ::
  "('tr, 'lq, 'ed) env \<Rightarrow> 'tr DrawingFrame \<Rightarrow> 'tr StreamVideoDrawQuad
     \<Rightarrow> GLRenderer \<Rightarrow> error + GLRenderer" where
  "DrawStreamVideoQuad env frame quad s =
     (let s = SetBlendEnabled (ShouldDrawWithBlending quad) s;
          tex_coord_precision =
            TexCoordPrecisionRequired env (Rect_bottom_right (visibleContentRect quad))
      in if \<not> using_egl_image env then Inl NullPointerDereference
         else
           let prog = GetProgram env VideoStreamTextureProgram tex_coord_precision;
               s = SetUseProgram (program prog) s;
               gl_matrix = asColMajorf (gfx env) (stream_matrix quad);
               s = GLC (UniformMatrix4fv (location prog u_tex_matrix) 1 False gl_matrix) s;
               s = GLC (BindTexture GL_TEXTURE_EXTERNAL_OES
                          (texture_id env (stream_resource_id quad))) s;
               s = GLC (Uniform1i (location prog u_sampler) 0) s;
               s = SetShaderOpacity (opacity quad) (location prog u_alpha) s
           in Inr (DrawQuadGeometry env frame (quadTransform quad) (RectF_of (rect quad))
                     (location prog u_matrix) s))"

definition DrawIOSurfaceQuad ::
  "('tr, 'lq, 'ed) env \<Rightarrow> 'tr DrawingFrame \<Rightarrow> 'tr IOSurfaceDrawQuad
     \<Rightarrow> GLRenderer \<Rightarrow> GLRenderer" where
  "DrawIOSurfaceQuad env frame quad s =
     (let s = SetBlendEnabled (ShouldDrawWithBlending quad) s;
          tex_coord_precision =
            TexCoordPrecisionRequired env (Rect_bottom_right (visibleContentRect quad));
          binding = GetProgram env TextureIOSurfaceProgram tex_coord_precision;
          s = SetUseProgram (program binding) s;
          s = GLC (Uniform1i (location binding u_sampler) 0) s;
          s = (if orientation quad = FLIPPED
               then GLC (Uniform4f (location binding u_tex_transform)
                           0
                           (of_int (snd (io_surface_size quad)))
                           (of_int (fst (io_surface_size quad)))
                           (of_int (snd (io_surface_size quad)) * - 1)) s
               else GLC (Uniform4f (location binding u_tex_transform)
                           0
                           0
                           (of_int (fst (io_surface_size quad)))
                           (of_int (snd (io_surface_size quad)))) s);
          s = GLC (Uniform1fv (location binding u_vertex_opacity) 4
                     [opacity quad, opacity quad, opacity quad, opacity quad]) s;
          s = GLC (BindTexture GL_TEXTURE_RECTANGLE_ARB
                     (texture_id env (io_surface_resource_id quad))) s;
          s = DrawQuadGeometry env frame (quadTransform quad) (RectF_of (rect quad))
                (location binding u_matrix) s
      in GLC (BindTexture GL_TEXTURE_RECTANGLE_ARB 0) s)"

subsection \<open>Filters and the background-filter compositor\<close>

text \<open>\<open>ApplyFilters\<close> and \<open>ApplyImageFilter\<close> draw on the offscreen context of the
  resource provider; of the renderer they use the lock on the source texture only.\<close>

definition ApplyFilters ::
  "('tr, 'lq, 'ed) env \<Rightarrow> nat list \<Rightarrow> ScopedResource \<Rightarrow> SkBitmap" where
  "ApplyFilters env fs source_texture_resource =
     (if fs = [] then None
      else if \<not> has_offscreen_GrContext env then None
      else RenderSurfaceFilters_Apply env fs
             (texture_id env (res_id source_texture_resource))
             (res_size source_texture_resource))"

definition ApplyImageFilter ::
  "('tr, 'lq, 'ed) env \<Rightarrow> nat option \<Rightarrow> ScopedResource \<Rightarrow> SkBitmap" where
  "ApplyImageFilter env f source_texture_resource =
     (case f of
        None \<Rightarrow> None
      | Some flt \<Rightarrow>
          if \<not> has_offscreen_GrContext env then None
          else accessBitmap env flt
                 (texture_id env (res_id source_texture_resource))
                 (res_size source_texture_resource))"

text \<open>Modelled from the spec: \<open>ScopedResource::create\<close> and \<open>ScopedResource::Allocate\<close>
  (cc/resources/scoped\_resource.h is not among the source files): a fresh scoped
  resource has id 0; allocation asks the resource provider for a texture and succeeds
  when the id it gets is not 0.\<close>

definition ScopedResource_create :: ScopedResource where
  "ScopedResource_create = \<lparr>res_id = 0, res_size = (0, 0), res_format = GL_ZERO\<rparr>"

definition Allocate ::
  "('tr, 'lq, 'ed) env \<Rightarrow> Size \<Rightarrow> GLenum \<Rightarrow> bool \<times> ScopedResource" where
  "Allocate env sz format =
     (let t = \<lparr>res_id = CreateTexture env sz format, res_size = sz, res_format = format\<rparr>
      in (res_id t \<noteq> 0, t))"

definition GetFramebufferTexture ::
  "('tr, 'lq, 'ed) env \<Rightarrow> ScopedResource \<Rightarrow> Rect \<Rightarrow> GLRenderer
     \<Rightarrow> bool \<times> ScopedResource \<times> GLRenderer" where
  "GetFramebufferTexture env texture device_rect s =
     (let (ok, texture) = (if res_id texture = 0 then Allocate env (Rect_size device_rect) GL_RGB
                           else (True, texture))
      in if \<not> ok then (False, texture, s)
         else
           let s = GLC (BindTexture GL_TEXTURE_2D (texture_id env (res_id texture))) s;
               s = GLC (CopyTexImage2D GL_TEXTURE_2D 0 (res_format texture)
                          (Rect_x device_rect) (Rect_y device_rect)
                          (Rect_width device_rect) (Rect_height device_rect) 0) s
           in (True, texture, s))"

definition CopyTextureToFramebuffer ::
  "('tr, 'lq, 'ed) env \<Rightarrow> 'tr DrawingFrame \<Rightarrow> nat \<Rightarrow> Rect \<Rightarrow> 'tr
     \<Rightarrow> GLRenderer \<Rightarrow> GLRenderer" where
  "CopyTextureToFramebuffer env frame tex r draw_matrix s =
     (let tex_coord_precision = TexCoordPrecisionRequired env (Rect_bottom_right r);
          prog = GetProgram env RenderPassProgram tex_coord_precision;
          s = GLC (BindTexture GL_TEXTURE_2D tex) s;
          s = SetUseProgram (program prog) s;
          s = GLC (Uniform1i (location prog u_sampler) 0) s;
          s = GLC (Uniform4f (location prog u_tex_transform) 0 0 1 1) s;
          s = SetShaderOpacity 1 (location prog u_alpha) s
      in DrawQuadGeometry env frame draw_matrix (RectF_of r) (location prog u_matrix) s)"

text \<open>\<open>SharedGeometryQuad()\<close>: the unit quad centred at the origin the constructor
  stores in \<open>shared_geometry_quad_\<close>.\<close>

definition SharedGeometryQuad :: QuadF where
  "SharedGeometryQuad =
     QuadF_of \<lparr>RectF_x = - (1 / 2), RectF_y = - (1 / 2), RectF_width = 1, RectF_height = 1\<rparr>"

text \<open>A null \<open>scoped_ptr\<close> result is \<open>None\<close>. The frame is passed by pointer and is
  returned with the state; dereferencing \<open>frame->current_render_pass\<close> when it is
  null is the error.\<close>

definition DrawBackgroundFilters ::
  "('tr, 'lq, 'ed) env \<Rightarrow> 'tr DrawingFrame \<Rightarrow> 'tr RenderPassDrawQuad \<Rightarrow> 'tr \<Rightarrow> 'tr
     \<Rightarrow> GLRenderer \<Rightarrow> error + (ScopedResource option \<times> 'tr DrawingFrame \<times> GLRenderer)" where
  "DrawBackgroundFilters env frame quad contents_device_transform
       contents_device_transform_inverse s =
     (let fs = background_filters quad
      in case current_render_pass frame of
           None \<Rightarrow> Inl NullPointerDereference
         | Some pass \<Rightarrow>
             if has_transparent_background pass then Inr (None, frame, s)
             else
               let device_rect = ToEnclosingRect (gfx env)
                                   (MapClippedRect (gfx env) contents_device_transform
                                      (BoundingBox (gfx env) SharedGeometryQuad));
                   (top, rt, bot, left) = getOutsets env fs;
                   device_rect = Rect_Inset (gfx env) device_rect (- left) (- top) (- rt) (- bot);
                   device_rect = Rect_Intersect (gfx env) device_rect (output_rect pass);
                   (ok, device_background_texture, s) =
                      GetFramebufferTexture env ScopedResource_create device_rect s
               in if \<not> ok then Inr (None, frame, s)
                  else
                    (case ApplyFilters env fs device_background_texture of
                      None \<Rightarrow> Inr (None, frame, s)
                    | Some filtered_device_background_texture_id \<Rightarrow>
                        let (allocated, background_texture) =
                               Allocate env (Rect_size (rect quad)) GL_RGBA
                        in if \<not> allocated then Inr (None, frame, s)
                           else
                             let target_render_pass = pass;
                                 (using_background_texture, frame, s) =
                                    UseScopedTexture env frame background_texture (rect quad) s;
                                 s = (if using_background_texture then
                                        let t = Transform_identity (gfx env);
                                            t = Translate (gfx env) t
                                                  (of_int (Rect_width (rect quad)) * (1 / 2)
                                                     + of_int (Rect_x (rect quad)))
                                                  (of_int (Rect_height (rect quad)) * (1 / 2)
                                                     + of_int (Rect_y (rect quad)));
                                            t = Scale (gfx env) t
                                                  (of_int (Rect_width (rect quad)))
                                                  (of_int (Rect_height (rect quad)));
                                            device_to_framebuffer_transform =
                                              PreconcatTransform (gfx env) t
                                                contents_device_transform_inverse
                                        in CopyTextureToFramebuffer env frame
                                             filtered_device_background_texture_id
                                             device_rect device_to_framebuffer_transform s
                                      else s);
                                 (frame, s) = UseRenderPass env frame target_render_pass s
                             in if \<not> using_background_texture then Inr (None, frame, s)
                                else Inr (Some background_texture, frame, s)))"

subsection \<open>Render-pass quads\<close>

text \<open>The eight-way choice of program in \<open>DrawRenderPassQuad\<close>, with the uniform
  locations each branch stores; a location no branch stores stays \<open>-1\<close>.\<close>

definition render_pass_program ::
  "bool \<Rightarrow> bool \<Rightarrow> bool \<Rightarrow> ProgramKind \<times> uniform list" where
  "render_pass_program use_aa has_mask use_color_matrix =
     (if use_aa \<and> has_mask \<and> \<not> use_color_matrix then
        (RenderPassMaskProgramAA,
         [u_point, u_edge, u_mask_sampler, u_mask_tex_coord_scale, u_mask_tex_coord_offset,
          u_matrix, u_alpha, u_tex_scale])
      else if \<not> use_aa \<and> has_mask \<and> \<not> use_color_matrix then
        (RenderPassMaskProgram,
         [u_mask_sampler, u_mask_tex_coord_scale, u_mask_tex_coord_offset,
          u_matrix, u_alpha, u_tex_transform])
      else if use_aa \<and> \<not> has_mask \<and> \<not> use_color_matrix then
        (RenderPassProgramAA,
         [u_point, u_edge, u_matrix, u_alpha, u_tex_scale])
      else if use_aa \<and> has_mask \<and> use_color_matrix then
        (RenderPassMaskColorMatrixProgramAA,
         [u_matrix, u_point, u_tex_scale, u_edge, u_alpha, u_mask_sampler,
          u_mask_tex_coord_scale, u_mask_tex_coord_offset, u_color_matrix, u_color_offset])
      else if use_aa \<and> \<not> has_mask \<and> use_color_matrix then
        (RenderPassColorMatrixProgramAA,
         [u_matrix, u_point, u_tex_scale, u_edge, u_alpha, u_color_matrix, u_color_offset])
      else if \<not> use_aa \<and> has_mask \<and> use_color_matrix then
        (RenderPassMaskColorMatrixProgram,
         [u_matrix, u_tex_transform, u_mask_sampler, u_mask_tex_coord_scale,
          u_mask_tex_coord_offset, u_alpha, u_color_matrix, u_color_offset])
      else if \<not> use_aa \<and> \<not> has_mask \<and> use_color_matrix then
        (RenderPassColorMatrixProgram,
         [u_matrix, u_tex_transform, u_alpha, u_color_matrix, u_color_offset])
      else
        (RenderPassProgram, [u_matrix, u_alpha, u_tex_transform]))"

text \<open>\<open>DrawRenderPassQuad\<close> from the filters on (the part after the background
  texture has been made), with the contents texture, the device transform and its
  inverse.\<close>

definition DrawRenderPassQuad_contents ::
  "('tr, 'lq, 'ed) env \<Rightarrow> 'tr DrawingFrame \<Rightarrow> 'tr RenderPassDrawQuad \<Rightarrow> ScopedResource
     \<Rightarrow> 'tr \<Rightarrow> 'tr \<Rightarrow> ScopedResource option \<Rightarrow> GLRenderer \<Rightarrow> GLRenderer" where
  "DrawRenderPassQuad_contents env frame quad contents_texture contents_device_transform
       contents_device_transform_inverse background_texture s =
     (let g = gfx env;
          (use_color_matrix, color_matrix, filter_bitmap) =
             (case image_filter quad of
                Some flt \<Rightarrow>
                  (case asColorMatrix env flt of
                     Some cm \<Rightarrow>
                       if \<not> getInput0 env flt then (True, cm, None)
                       else (False, cm, ApplyImageFilter env (image_filter quad) contents_texture)
                   | None \<Rightarrow>
                       (False, (\<lambda>i. 0), ApplyImageFilter env (image_filter quad) contents_texture))
              | None \<Rightarrow> (False, (\<lambda>i. 0), ApplyFilters env (filters quad) contents_texture));
          s = (case background_texture of
                 Some bt \<Rightarrow>
                   CopyTextureToFramebuffer env frame (texture_id env (res_id bt)) (rect quad)
                     (quadTransform quad) s
               | None \<Rightarrow> s);
          device_quad = fst (MapQuad g contents_device_transform SharedGeometryQuad);
          device_layer_bounds = LayerQuad_of_QuadF g (QuadF_of (BoundingBox g device_quad));
          device_layer_edges = LayerQuad_of_QuadF g device_quad;
          use_aa = (\<not> IsRectilinear g device_quad \<or>
                    \<not> IsNearestRectWithinDistance g (BoundingBox g device_quad)
                        kAntiAliasingEpsilon);
          device_layer_bounds = (if use_aa then InflateAntiAliasingDistance g device_layer_bounds
                                 else device_layer_bounds);
          device_layer_edges = (if use_aa then InflateAntiAliasingDistance g device_layer_edges
                                else device_layer_edges);
          mask_texture_id = (if mask_resource_id quad \<noteq> 0
                             then texture_id env (mask_resource_id quad) else 0);
          s = (case filter_bitmap of
                 Some handle \<Rightarrow> GLC (BindTexture GL_TEXTURE_2D handle) s
               | None \<Rightarrow> GLC (ScopedSamplerGL (res_id contents_texture) GL_TEXTURE_2D GL_LINEAR) s);
          tex_coord_precision =
            TexCoordPrecisionRequired env (Rect_bottom_right (visibleContentRect quad));
          (kind, stored) = render_pass_program use_aa (mask_texture_id \<noteq> 0) use_color_matrix;
          prog = GetProgram env kind tex_coord_precision;
          loc = (\<lambda>u. if u \<in> set stored then location prog u else - 1);
          s = SetUseProgram (program prog) s;
          s = GLC (Uniform1i (location prog u_sampler) 0) s;
          tex_scale_x = of_int (Rect_width (rect quad)) / of_int (fst (res_size contents_texture));
          tex_scale_y = of_int (Rect_height (rect quad)) / of_int (snd (res_size contents_texture));
          s = (if loc u_tex_transform \<noteq> - 1
               then GLC (Uniform4f (loc u_tex_transform) 0 0 tex_scale_x tex_scale_y) s
               else if loc u_tex_scale \<noteq> - 1
               then GLC (Uniform2f (loc u_tex_scale) tex_scale_x tex_scale_y) s
               else s);
          s = (if loc u_mask_sampler \<noteq> - 1 then
                 let s = GLC (ActiveTexture GL_TEXTURE1) s;
                     s = GLC (Uniform1i (loc u_mask_sampler) 1) s;
                     s = GLC (Uniform2f (loc u_mask_tex_coord_offset)
                                (RectF_x (mask_uv_rect quad)) (RectF_y (mask_uv_rect quad))) s;
                     s = GLC (Uniform2f (loc u_mask_tex_coord_scale)
                                (RectF_width (mask_uv_rect quad) / tex_scale_x)
                                (RectF_height (mask_uv_rect quad) / tex_scale_y)) s;
                     s = GLC (BindForSampling (mask_resource_id quad) GL_TEXTURE_2D GL_LINEAR) s
                 in GLC (ActiveTexture GL_TEXTURE0) s
               else s);
          s = (if loc u_edge \<noteq> - 1
               then GLC (Uniform3fv (loc u_edge) 8
                           (ToFloatArray g device_layer_edges @ ToFloatArray g device_layer_bounds)) s
               else s);
          s = (if loc u_color_matrix \<noteq> - 1
               then GLC (UniformMatrix4fv (loc u_color_matrix) 1 False
                           (map (\<lambda>k. color_matrix ((k mod 4) * 5 + k div 4)) [0..<16])) s
               else s);
          s = (if loc u_color_offset \<noteq> - 1
               then GLC (Uniform4fv (loc u_color_offset) 1
                           (map (\<lambda>i. color_matrix (i * 5 + 4) * (1 / 255)) [0..<4])) s
               else s);
          surface_quad =
            fst (MapQuad g contents_device_transform_inverse (ToQuadF g device_layer_edges));
          s = SetShaderOpacity (opacity quad) (loc u_alpha) s;
          s = SetShaderQuadF surface_quad (loc u_point) s;
          s = DrawQuadGeometry env frame (quadTransform quad) (RectF_of (rect quad))
                (loc u_matrix) s
      in (case filter_bitmap of Some handle \<Rightarrow> GLC Flush s | None \<Rightarrow> s))"

definition DrawRenderPassQuad ::
  "('tr, 'lq, 'ed) env \<Rightarrow> 'tr DrawingFrame \<Rightarrow> 'tr RenderPassDrawQuad \<Rightarrow> GLRenderer
     \<Rightarrow> error + ('tr DrawingFrame \<times> GLRenderer)" where
  "DrawRenderPassQuad env frame quad s =
     (let s = SetBlendEnabled (ShouldDrawWithBlending quad) s
      in case render_pass_textures s (render_pass_id quad) of
           None \<Rightarrow> Inr (frame, s)
         | Some contents_texture \<Rightarrow>
             if res_id contents_texture = 0 then Inr (frame, s)
             else
               let quad_rect_matrix =
                     QuadRectTransform (gfx env) (quadTransform quad) (RectF_of (rect quad));
                   contents_device_transform =
                     FlattenTo2d (gfx env)
                       (Transform_mul (gfx env)
                          (Transform_mul (gfx env) (window_matrix frame) (projection_matrix frame))
                          quad_rect_matrix);
                   (contents_device_transform_inverse, invertible) =
                      GetInverse (gfx env) contents_device_transform
               in if \<not> invertible then Inr (frame, s)
                  else
                    (case (if background_filters quad \<noteq> [] then
                             let disable_blending = blend_enabled s;
                                 s = (if disable_blending then SetBlendEnabled False s else s)
                             in (case DrawBackgroundFilters env frame quad
                                        contents_device_transform
                                        contents_device_transform_inverse s of
                                   Inl e \<Rightarrow> Inl e
                                 | Inr (background_texture, frame, s) \<Rightarrow>
                                     Inr (background_texture, frame,
                                          if disable_blending then SetBlendEnabled True s else s))
                           else Inr (None, frame, s)) of
                       Inl e \<Rightarrow> Inl e
                     | Inr (background_texture, frame, s) \<Rightarrow>
                         Inr (frame,
                              DrawRenderPassQuad_contents env frame quad contents_texture
                                contents_device_transform contents_device_transform_inverse
                                background_texture s)))"

subsection \<open>Dispatch\<close>

text \<open>The \<open>switch\<close> of \<open>DoDrawQuad\<close>.\<close>

definition DispatchQuad ::
  "('tr, 'lq, 'ed) env \<Rightarrow> 'tr DrawingFrame \<Rightarrow> 'tr Quad \<Rightarrow> GLRenderer
     \<Rightarrow> error + ('tr DrawingFrame \<times> GLRenderer)" where
  "DispatchQuad env frame quad s =
     (case quad of
        INVALID q \<Rightarrow> Inr (frame, s)
      | CHECKERBOARD q \<Rightarrow> Inr (frame, DrawCheckerboardQuad env frame q s)
      | DEBUG_BORDER q \<Rightarrow> Inr (frame, DrawDebugBorderQuad env frame q s)
      | IO_SURFACE_CONTENT q \<Rightarrow> Inr (frame, DrawIOSurfaceQuad env frame q s)
      | PICTURE_CONTENT q \<Rightarrow> Inr (frame, DrawPictureQuad env frame q s)
      | RENDER_PASS q \<Rightarrow> DrawRenderPassQuad env frame q s
      | SOLID_COLOR q \<Rightarrow> Inr (frame, DrawSolidColorQuad env frame q s)
      | STREAM_VIDEO_CONTENT q \<Rightarrow>
          (case DrawStreamVideoQuad env frame q s of
             Inl e \<Rightarrow> Inl e
           | Inr s \<Rightarrow> Inr (frame, s))
      | TEXTURE_CONTENT q \<Rightarrow> Inr (frame, EnqueueTextureQuad env frame q s)
      | TILED_CONTENT q \<Rightarrow> Inr (frame, DrawTileQuad env frame q s)
      | YUV_VIDEO_CONTENT q \<Rightarrow> Inr (frame, DrawYUVVideoQuad env frame q s))"

definition is_TEXTURE_CONTENT :: "'tr Quad \<Rightarrow> bool" where
  "is_TEXTURE_CONTENT quad = (case quad of TEXTURE_CONTENT q \<Rightarrow> True | _ \<Rightarrow> False)"

definition DoDrawQuad ::
  "('tr, 'lq, 'ed) env \<Rightarrow> 'tr DrawingFrame \<Rightarrow> 'tr Quad \<Rightarrow> GLRenderer
     \<Rightarrow> error + ('tr DrawingFrame \<times> GLRenderer)" where
  "DoDrawQuad env frame quad s =
     (let s = (if \<not> is_TEXTURE_CONTENT quad then FlushTextureQuadCache env s else s)
      in DispatchQuad env frame quad s)"

section \<open>Notions used to state the properties\<close>

text \<open>The calls a step adds to the trace, and the draw calls among them.\<close>

definition new_calls :: "GLRenderer \<Rightarrow> GLRenderer \<Rightarrow> gl_call list" where
  "new_calls s s' = drop (length (gl_calls s)) (gl_calls s')"

definition is_draw_call :: "gl_call \<Rightarrow> bool" where
  "is_draw_call c = (case c of DrawElements m n t off \<Rightarrow> True | _ \<Rightarrow> False)"

definition draw_calls :: "gl_call list \<Rightarrow> gl_call list" where
  "draw_calls cs = filter is_draw_call cs"

text \<open>The calls of one flush, for a cache \<open>c\<close> and the shadowed blend flag and
  program at the time of the flush.\<close>

definition flush_calls ::
  "('tr, 'lq, 'ed) env \<Rightarrow> TexturedQuadDrawCache \<Rightarrow> bool \<Rightarrow> nat \<Rightarrow> gl_call list" where
  "flush_calls env c blend prog =
     (if program_id c = 0 then []
      else
        (if needs_blending c = blend then []
         else [if needs_blending c then Enable GL_BLEND else Disable GL_BLEND])
        @ (if program_id c = prog then [] else [UseProgram (program_id c)])
        @ [Uniform1i (sampler_location c) 0,
           BindTexture GL_TEXTURE_2D (texture_id env (resource_id c))]
        @ (if use_premultiplied_alpha c then []
           else [BlendFuncSeparate GL_SRC_ALPHA GL_ONE_MINUS_SRC_ALPHA GL_ZERO GL_ONE])
        @ [UniformMatrix4fv (matrix_location c) (length (matrix_data c)) False
             (concat (matrix_data c)),
           Uniform4fv (uv_xform_location c) (length (uv_xform_data c))
             (concat (uv_xform_data c)),
           Uniform1fv (vertex_opacity_location c) (length (vertex_opacity_data c))
             (vertex_opacity_data c),
           DrawElements GL_TRIANGLES (6 * length (matrix_data c)) GL_UNSIGNED_SHORT 0]
        @ (if use_premultiplied_alpha c then []
           else [BlendFunc GL_ONE GL_ONE_MINUS_SRC_ALPHA]))"

text \<open>The cache is empty: program id 0 and the three per-instance arrays empty.\<close>

definition cache_empty :: "TexturedQuadDrawCache \<Rightarrow> bool" where
  "cache_empty c \<longleftrightarrow>
     program_id c = 0 \<and> uv_xform_data c = [] \<and> vertex_opacity_data c = [] \<and> matrix_data c = []"

text \<open>The source tests emptiness by \<open>program_id == 0\<close> alone. The test is right in the
  states where a cache with program id 0 holds no per-instance data.\<close>

definition cache_consistent :: "TexturedQuadDrawCache \<Rightarrow> bool" where
  "cache_consistent c \<longleftrightarrow>
     program_id c \<noteq> 0 \<or>
     (uv_xform_data c = [] \<and> vertex_opacity_data c = [] \<and> matrix_data c = [])"

text \<open>Two textured quads agree on the selected program, the texture resource, the
  premultiplied-alpha flag and the blending requirement.\<close>

definition batch_compatible ::
  "('tr, 'lq, 'ed) env \<Rightarrow> 'tr TextureDrawQuad \<Rightarrow> 'tr TextureDrawQuad \<Rightarrow> bool" where
  "batch_compatible env q1 q2 \<longleftrightarrow>
     program (texture_binding env q1) = program (texture_binding env q2) \<and>
     quad_resource_id q1 = quad_resource_id q2 \<and>
     premultiplied_alpha q1 = premultiplied_alpha q2 \<and>
     ShouldDrawWithBlending q1 = ShouldDrawWithBlending q2"






text \<open>The cache holds a batch of \<open>n\<close> quads compatible with \<open>q\<close>.\<close>

definition holds_batch ::
  "('tr, 'lq, 'ed) env \<Rightarrow> 'tr TextureDrawQuad \<Rightarrow> nat \<Rightarrow> TexturedQuadDrawCache \<Rightarrow> bool" where
  "holds_batch env q n c \<longleftrightarrow>
     program_id c = program (texture_binding env q) \<and>
     resource_id c = quad_resource_id q \<and>
     use_premultiplied_alpha c = premultiplied_alpha q \<and>
     needs_blending c = ShouldDrawWithBlending q \<and>
     length (matrix_data c) = n"

text \<open>Enqueuing a sequence of textured quads, in order.\<close>

definition enqueue_all ::
  "('tr, 'lq, 'ed) env \<Rightarrow> 'tr DrawingFrame \<Rightarrow> 'tr TextureDrawQuad list
     \<Rightarrow> GLRenderer \<Rightarrow> GLRenderer" where
  "enqueue_all env frame qs s = foldl (\<lambda>s q. EnqueueTextureQuad env frame q s) s qs"

text \<open>The flattened device-space transform of a quad, as \<open>DrawSolidColorQuad\<close> and
  \<open>DrawContentQuad\<close> compute it, and that of a render-pass quad.\<close>

definition quad_device_transform ::
  "('tr, 'lq, 'ed) env \<Rightarrow> 'tr DrawingFrame \<Rightarrow> ('tr, 'z) DrawQuad_scheme \<Rightarrow> 'tr" where
  "quad_device_transform env frame quad =
     FlattenTo2d (gfx env)
       (Transform_mul (gfx env)
          (Transform_mul (gfx env) (window_matrix frame) (projection_matrix frame))
          (quadTransform quad))"

definition render_pass_device_transform ::
  "('tr, 'lq, 'ed) env \<Rightarrow> 'tr DrawingFrame \<Rightarrow> 'tr RenderPassDrawQuad \<Rightarrow> 'tr" where
  "render_pass_device_transform env frame quad =
     FlattenTo2d (gfx env)
       (Transform_mul (gfx env)
          (Transform_mul (gfx env) (window_matrix frame) (projection_matrix frame))
          (QuadRectTransform (gfx env) (quadTransform quad) (RectF_of (rect quad))))"

text \<open>The result of the anti-aliasing builder on a quad as the two routines call it.\<close>

definition quad_use_aa ::
  "('tr, 'lq, 'ed) env \<Rightarrow> 'tr DrawingFrame \<Rightarrow> ('tr, 'z) DrawQuad_scheme \<Rightarrow> bool" where
  "quad_use_aa env frame quad =
     fst (SetupQuadForAntialiasing (gfx env) (quad_device_transform env frame quad) quad
            (QuadF_of (RectF_of (visible_rect quad))) uninitialized_edge)"

section \<open>An exact instance of the collaborators\<close>

text \<open>Modelled from the spec: an exact-arithmetic reading of the geometry library
  (ui/gfx, \<open>cc::MathUtil\<close>, \<open>cc::LayerQuad\<close>, none of them among the source files) for
  the transforms that scale and translate along the axes. A transform maps \<open>(x, y)\<close> to
  \<open>(a_sx * x + a_tx, a_sy * y + a_ty)\<close>; it is invertible when both scales are not 0.
  A quad is axis-aligned when its sides are alternately horizontal and vertical; a
  rectangle is within a distance of the nearest integer rectangle when each of its
  four sides is closer than that to the nearest integer. An edge is a line equation
  normalised by the length of its tangent, which for an axis-aligned edge is the sum
  of the absolute values of its components.\<close>

record Affine =
  a_sx :: float
  a_sy :: float
  a_tx :: float
  a_ty :: float

type_synonym LineEdge = "float \<times> float \<times> float"

type_synonym LineQuad = "LineEdge \<times> LineEdge \<times> LineEdge \<times> LineEdge"

definition affine_identity :: Affine where
  "affine_identity = \<lparr>a_sx = 1, a_sy = 1, a_tx = 0, a_ty = 0\<rparr>"

definition affine_mul :: "Affine \<Rightarrow> Affine \<Rightarrow> Affine" where
  "affine_mul a b =
     \<lparr>a_sx = a_sx a * a_sx b, a_sy = a_sy a * a_sy b,
      a_tx = a_sx a * a_tx b + a_tx a, a_ty = a_sy a * a_ty b + a_ty a\<rparr>"

definition affine_IsInvertible :: "Affine \<Rightarrow> bool" where
  "affine_IsInvertible t \<longleftrightarrow> a_sx t \<noteq> 0 \<and> a_sy t \<noteq> 0"

definition affine_GetInverse :: "Affine \<Rightarrow> Affine \<times> bool" where
  "affine_GetInverse t =
     (if affine_IsInvertible t
      then (\<lparr>a_sx = 1 / a_sx t, a_sy = 1 / a_sy t,
             a_tx = - a_tx t / a_sx t, a_ty = - a_ty t / a_sy t\<rparr>, True)
      else (affine_identity, False))"

definition affine_Translate :: "Affine \<Rightarrow> float \<Rightarrow> float \<Rightarrow> Affine" where
  "affine_Translate t dx dy = affine_mul t \<lparr>a_sx = 1, a_sy = 1, a_tx = dx, a_ty = dy\<rparr>"

definition affine_Scale :: "Affine \<Rightarrow> float \<Rightarrow> float \<Rightarrow> Affine" where
  "affine_Scale t sx sy = affine_mul t \<lparr>a_sx = sx, a_sy = sy, a_tx = 0, a_ty = 0\<rparr>"

definition affine_asColMajorf :: "Affine \<Rightarrow> float list" where
  "affine_asColMajorf t =
     [a_sx t, 0, 0, 0,  0, a_sy t, 0, 0,  0, 0, 1, 0,  a_tx t, a_ty t, 0, 1]"

definition affine_IsIdentityOrIntegerTranslation :: "Affine \<Rightarrow> bool" where
  "affine_IsIdentityOrIntegerTranslation t \<longleftrightarrow>
     a_sx t = 1 \<and> a_sy t = 1 \<and>
     of_int \<lfloor>a_tx t\<rfloor> = a_tx t \<and> of_int \<lfloor>a_ty t\<rfloor> = a_ty t"

definition affine_QuadRectTransform :: "Affine \<Rightarrow> RectF \<Rightarrow> Affine" where
  "affine_QuadRectTransform t r =
     affine_Scale
       (affine_Translate t ((1 / 2) * RectF_width r + RectF_x r)
                           ((1 / 2) * RectF_height r + RectF_y r))
       (RectF_width r) (RectF_height r)"

definition affine_point :: "Affine \<Rightarrow> PointF \<Rightarrow> PointF" where
  "affine_point t p = \<lparr>px = a_sx t * px p + a_tx t, py = a_sy t * py p + a_ty t\<rparr>"

definition affine_MapPoint :: "Affine \<Rightarrow> PointF \<Rightarrow> PointF \<times> bool" where
  "affine_MapPoint t p = (affine_point t p, False)"

definition affine_MapQuad :: "Affine \<Rightarrow> QuadF \<Rightarrow> QuadF \<times> bool" where
  "affine_MapQuad t q =
     (\<lparr>p1 = affine_point t (p1 q), p2 = affine_point t (p2 q),
       p3 = affine_point t (p3 q), p4 = affine_point t (p4 q)\<rparr>, False)"

definition exact_BoundingBox :: "QuadF \<Rightarrow> RectF" where
  "exact_BoundingBox q =
     (let xmin = min (min (px (p1 q)) (px (p2 q))) (min (px (p3 q)) (px (p4 q)));
          xmax = max (max (px (p1 q)) (px (p2 q))) (max (px (p3 q)) (px (p4 q)));
          ymin = min (min (py (p1 q)) (py (p2 q))) (min (py (p3 q)) (py (p4 q)));
          ymax = max (max (py (p1 q)) (py (p2 q))) (max (py (p3 q)) (py (p4 q)))
      in \<lparr>RectF_x = xmin, RectF_y = ymin, RectF_width = xmax - xmin, RectF_height = ymax - ymin\<rparr>)"

definition affine_MapClippedRect :: "Affine \<Rightarrow> RectF \<Rightarrow> RectF" where
  "affine_MapClippedRect t r = exact_BoundingBox (fst (affine_MapQuad t (QuadF_of r)))"

definition exact_IsRectilinear :: "QuadF \<Rightarrow> bool" where
  "exact_IsRectilinear q \<longleftrightarrow>
     (px (p1 q) = px (p2 q) \<and> py (p2 q) = py (p3 q) \<and>
      px (p3 q) = px (p4 q) \<and> py (p4 q) = py (p1 q)) \<or>
     (py (p1 q) = py (p2 q) \<and> px (p2 q) = px (p3 q) \<and>
      py (p3 q) = py (p4 q) \<and> px (p4 q) = px (p1 q))"

definition near_integer :: "float \<Rightarrow> float \<Rightarrow> bool" where
  "near_integer v distance \<longleftrightarrow> \<bar>of_int (round v) - v\<bar> < distance"

definition exact_IsNearestRectWithinDistance :: "RectF \<Rightarrow> float \<Rightarrow> bool" where
  "exact_IsNearestRectWithinDistance r distance \<longleftrightarrow>
     near_integer (RectF_x r) distance \<and>
     near_integer (RectF_y r) distance \<and>
     near_integer (RectF_x r + RectF_width r) distance \<and>
     near_integer (RectF_y r + RectF_height r) distance"

definition exact_IsCounterClockwise :: "QuadF \<Rightarrow> bool" where
  "exact_IsCounterClockwise q \<longleftrightarrow>
     (px (p1 q) * py (p2 q) - px (p2 q) * py (p1 q))
     + (px (p2 q) * py (p3 q) - px (p3 q) * py (p2 q))
     + (px (p3 q) * py (p4 q) - px (p4 q) * py (p3 q))
     + (px (p4 q) * py (p1 q) - px (p1 q) * py (p4 q)) < 0"

definition exact_ToEnclosingRect :: "RectF \<Rightarrow> Rect" where
  "exact_ToEnclosingRect r =
     \<lparr>Rect_x = \<lfloor>RectF_x r\<rfloor>, Rect_y = \<lfloor>RectF_y r\<rfloor>,
      Rect_width = \<lceil>RectF_x r + RectF_width r\<rceil> - \<lfloor>RectF_x r\<rfloor>,
      Rect_height = \<lceil>RectF_y r + RectF_height r\<rceil> - \<lfloor>RectF_y r\<rfloor>\<rparr>"

definition exact_Rect_Inset :: "Rect \<Rightarrow> int \<Rightarrow> int \<Rightarrow> int \<Rightarrow> int \<Rightarrow> Rect" where
  "exact_Rect_Inset r l t rt b =
     \<lparr>Rect_x = Rect_x r + l, Rect_y = Rect_y r + t,
      Rect_width = max 0 (Rect_width r - l - rt),
      Rect_height = max 0 (Rect_height r - t - b)\<rparr>"

definition exact_RectF_Inset :: "RectF \<Rightarrow> float \<Rightarrow> float \<Rightarrow> float \<Rightarrow> float \<Rightarrow> RectF" where
  "exact_RectF_Inset r l t rt b =
     \<lparr>RectF_x = RectF_x r + l, RectF_y = RectF_y r + t,
      RectF_width = max 0 (RectF_width r - l - rt),
      RectF_height = max 0 (RectF_height r - t - b)\<rparr>"

definition exact_Rect_Intersect :: "Rect \<Rightarrow> Rect \<Rightarrow> Rect" where
  "exact_Rect_Intersect a b =
     (let rx = max (Rect_x a) (Rect_x b);
          ry = max (Rect_y a) (Rect_y b);
          rr = min (Rect_right a) (Rect_right b);
          rb = min (Rect_bottom a) (Rect_bottom b)
      in if rx \<ge> rr \<or> ry \<ge> rb
         then \<lparr>Rect_x = 0, Rect_y = 0, Rect_width = 0, Rect_height = 0\<rparr>
         else \<lparr>Rect_x = rx, Rect_y = ry, Rect_width = rr - rx, Rect_height = rb - ry\<rparr>)"

definition exact_Edge_scale :: "LineEdge \<Rightarrow> float \<Rightarrow> LineEdge" where
  "exact_Edge_scale e k = (case e of (a, b, c) \<Rightarrow> (a * k, b * k, c * k))"

definition exact_Edge :: "PointF \<Rightarrow> PointF \<Rightarrow> LineEdge" where
  "exact_Edge p q =
     (let tangent_x = py p - py q;
          tangent_y = px q - px p;
          cross2 = px p * py q - px q * py p
      in exact_Edge_scale (tangent_x, tangent_y, cross2) (1 / (\<bar>tangent_x\<bar> + \<bar>tangent_y\<bar>)))"

definition exact_LayerQuad_of_QuadF :: "QuadF \<Rightarrow> LineQuad" where
  "exact_LayerQuad_of_QuadF q =
     (let sign = (if exact_IsCounterClockwise q then - 1 else 1)
      in (exact_Edge_scale (exact_Edge (p4 q) (p1 q)) sign,
          exact_Edge_scale (exact_Edge (p1 q) (p2 q)) sign,
          exact_Edge_scale (exact_Edge (p2 q) (p3 q)) sign,
          exact_Edge_scale (exact_Edge (p3 q) (p4 q)) sign))"

definition exact_move_z :: "LineEdge \<Rightarrow> float \<Rightarrow> LineEdge" where
  "exact_move_z e d = (case e of (a, b, c) \<Rightarrow> (a, b, c + d))"

definition exact_InflateAntiAliasingDistance :: "LineQuad \<Rightarrow> LineQuad" where
  "exact_InflateAntiAliasingDistance lq =
     (case lq of (l, t, r, b) \<Rightarrow>
        (exact_move_z l (1 / 2), exact_move_z t (1 / 2),
         exact_move_z r (1 / 2), exact_move_z b (1 / 2)))"

definition exact_ToFloatArray :: "LineQuad \<Rightarrow> float list" where
  "exact_ToFloatArray lq =
     (case lq of ((lx, ly, lz), (tx, ty, tz), (rx, ry, rz), (bx, by, bz)) \<Rightarrow>
        [lx, ly, lz, tx, ty, tz, rx, ry, rz, bx, by, bz])"

definition exact_Intersect :: "LineEdge \<Rightarrow> LineEdge \<Rightarrow> PointF" where
  "exact_Intersect e f =
     (case (e, f) of ((ex, ey, ez), (gx, gy, gz)) \<Rightarrow>
        \<lparr>px = (ey * gz - gy * ez) / (ex * gy - gx * ey),
         py = (ex * gz - gx * ez) / (gx * ey - ex * gy)\<rparr>)"

definition exact_ToQuadF :: "LineQuad \<Rightarrow> QuadF" where
  "exact_ToQuadF lq =
     (case lq of (l, t, r, b) \<Rightarrow>
        \<lparr>p1 = exact_Intersect l t, p2 = exact_Intersect t r,
         p3 = exact_Intersect r b, p4 = exact_Intersect b l\<rparr>)"

definition exact_gfx :: "(Affine, LineQuad, LineEdge) gfx" where
  "exact_gfx =
     \<lparr>Transform_mul = affine_mul,
      Transform_identity = affine_identity,
      FlattenTo2d = (\<lambda>t. t),
      IsInvertible = affine_IsInvertible,
      GetInverse = affine_GetInverse,
      Translate = affine_Translate,
      Scale = affine_Scale,
      PreconcatTransform = affine_mul,
      asColMajorf = affine_asColMajorf,
      IsIdentityOrIntegerTranslation = affine_IsIdentityOrIntegerTranslation,
      QuadRectTransform = affine_QuadRectTransform,
      MapQuad = affine_MapQuad,
      MapPoint = affine_MapPoint,
      MapClippedRect = affine_MapClippedRect,
      IsRectilinear = exact_IsRectilinear,
      BoundingBox = exact_BoundingBox,
      IsNearestRectWithinDistance = exact_IsNearestRectWithinDistance,
      IsCounterClockwise = exact_IsCounterClockwise,
      ToEnclosingRect = exact_ToEnclosingRect,
      Rect_Inset = exact_Rect_Inset,
      Rect_Intersect = exact_Rect_Intersect,
      RectF_Inset = exact_RectF_Inset,
      LayerQuad_of_QuadF = exact_LayerQuad_of_QuadF,
      LayerQuad_of_edges = (\<lambda>l t r b. (l, t, r, b)),
      InflateAntiAliasingDistance = exact_InflateAntiAliasingDistance,
      ToFloatArray = exact_ToFloatArray,
      ToQuadF = exact_ToQuadF,
      Edge = exact_Edge,
      LayerQuad_left = (\<lambda>lq. case lq of (l, t, r, b) \<Rightarrow> l),
      LayerQuad_top = (\<lambda>lq. case lq of (l, t, r, b) \<Rightarrow> t),
      LayerQuad_right = (\<lambda>lq. case lq of (l, t, r, b) \<Rightarrow> r),
      LayerQuad_bottom = (\<lambda>lq. case lq of (l, t, r, b) \<Rightarrow> b),
      Edge_scale = exact_Edge_scale\<rparr>"

text \<open>A renderer whose programs were all created (program id 7, every uniform at
  location 0) with no offscreen context and without the capability
  \<open>using_egl_image\<close>, and the same renderer after the context was
  lost before any program was created: \<open>ProgramBinding\<close> then keeps program id 0 and
  location \<open>-1\<close>, the case the source allows for in
  \<open>DCHECK(program && (program->initialized() || context->isContextLost()))\<close>.\<close>

definition exact_env :: "(Affine, LineQuad, LineEdge) env" where
  "exact_env =
     \<lparr>gfx = exact_gfx,
      programs = (\<lambda>k highp. \<lparr>program = 7, location = (\<lambda>u. 0)\<rparr>),
      TexCoordPrecisionRequired = (\<lambda>p. TexCoordPrecisionMedium),
      texture_id = (\<lambda>r. r),
      CreateTexture = (\<lambda>sz format. 0),
      CreateGLTexture = (\<lambda>sz. 0),
      has_offscreen_GrContext = False,
      using_egl_image = False,
      RenderSurfaceFilters_Apply = (\<lambda>fs t sz. None),
      accessBitmap = (\<lambda>f t sz. None),
      getOutsets = (\<lambda>fs. (0, 0, 0, 0)),
      asColorMatrix = (\<lambda>f. None),
      getInput0 = (\<lambda>f. False),
      InitializeMatrices = (\<lambda>frame r flip. frame),
      UseRenderPass = (\<lambda>frame pass s.
         (frame\<lparr>current_render_pass := Some pass, current_texture := None\<rparr>, s))\<rparr>"

definition lost_context_env :: "(Affine, LineQuad, LineEdge) env" where
  "lost_context_env =
     exact_env\<lparr>programs := (\<lambda>k highp. \<lparr>program = 0, location = (\<lambda>u. - 1)\<rparr>)\<rparr>"

text \<open>Concrete inputs: a 100 by 100 root pass, the frame drawing it with identity
  matrices, the renderer as \<open>BeginDrawingFrame\<close> leaves it (blending on, no program
  bound, empty cache), and quads covering the pass.\<close>

definition rect100 :: Rect where
  "rect100 = \<lparr>Rect_x = 0, Rect_y = 0, Rect_width = 100, Rect_height = 100\<rparr>"

definition root_pass :: RenderPass where
  "root_pass = \<lparr>pass_id = 1, output_rect = rect100, has_transparent_background = False\<rparr>"

definition transparent_pass :: RenderPass where
  "transparent_pass = \<lparr>pass_id = 2, output_rect = rect100, has_transparent_background = True\<rparr>"

definition frame0 :: "Affine DrawingFrame" where
  "frame0 =
     \<lparr>root_render_pass = root_pass, current_render_pass = Some root_pass,
      current_texture = None,
      projection_matrix = affine_identity, window_matrix = affine_identity\<rparr>"

definition empty_cache :: TexturedQuadDrawCache where
  "empty_cache =
     \<lparr>program_id = 0, resource_id = 0, use_premultiplied_alpha = False,
      needs_blending = False, uv_xform_location = 0, vertex_opacity_location = 0,
      matrix_location = 0, sampler_location = 0,
      uv_xform_data = [], vertex_opacity_data = [], matrix_data = []\<rparr>"

definition renderer0 :: GLRenderer where
  "renderer0 =
     \<lparr>gl_calls = [], blend_shadow = True, program_shadow = 0,
      is_scissor_enabled = False,
      scissor_rect = \<lparr>Rect_x = 0, Rect_y = 0, Rect_width = 0, Rect_height = 0\<rparr>,
      draw_cache = empty_cache, render_pass_textures = Map.empty,
      offscreen_framebuffer_id = 1, current_framebuffer_lock = None,
      on_demand_tile_raster_bitmap = (0, 0), on_demand_tile_raster_resource_id = 0\<rparr>"

definition texture_quad :: "nat \<Rightarrow> Affine TextureDrawQuad" where
  "texture_quad r =
     \<lparr>rect = rect100, visible_rect = rect100, quadTransform = affine_identity,
      visibleContentRect = rect100, opacity = 1, ShouldDrawWithBlending = False,
      IsLeftEdge = True, IsTopEdge = True, IsRightEdge = True, IsBottomEdge = True,
      quad_resource_id = r, premultiplied_alpha = True,
      uv_top_left = \<lparr>px = 0, py = 0\<rparr>, uv_bottom_right = \<lparr>px = 1, py = 1\<rparr>,
      vertex_opacity = (1, 1, 1, 1), flipped = False\<rparr>"

definition solid_quad :: "Affine \<Rightarrow> Affine SolidColorDrawQuad" where
  "solid_quad t =
     \<lparr>rect = rect100, visible_rect = rect100, quadTransform = t,
      visibleContentRect = rect100, opacity = 1, ShouldDrawWithBlending = False,
      IsLeftEdge = True, IsTopEdge = True, IsRightEdge = True, IsBottomEdge = True,
      solid_color = 0xFFFF0000\<rparr>"

definition tile_quad :: "Affine \<Rightarrow> Affine TileDrawQuad" where
  "tile_quad t =
     \<lparr>rect = rect100, visible_rect = rect100, quadTransform = t,
      visibleContentRect = rect100, opacity = 1, ShouldDrawWithBlending = False,
      IsLeftEdge = True, IsTopEdge = True, IsRightEdge = True, IsBottomEdge = True,
      tex_coord_rect = \<lparr>RectF_x = 0, RectF_y = 0, RectF_width = 100, RectF_height = 100\<rparr>,
      texture_size = (100, 100), swizzle_contents = False,
      tile_resource_id = 5\<rparr>"

definition render_pass_quad :: "Affine \<Rightarrow> nat list \<Rightarrow> Affine RenderPassDrawQuad" where
  "render_pass_quad t bg =
     \<lparr>rect = rect100, visible_rect = rect100, quadTransform = t,
      visibleContentRect = rect100, opacity = 1, ShouldDrawWithBlending = False,
      IsLeftEdge = True, IsTopEdge = True, IsRightEdge = True, IsBottomEdge = True,
      render_pass_id = 9, mask_resource_id = 0,
      mask_uv_rect = \<lparr>RectF_x = 0, RectF_y = 0, RectF_width = 1, RectF_height = 1\<rparr>,
      filters = [], image_filter = None, background_filters = bg\<rparr>"

definition checkerboard_quad :: "SkColor \<Rightarrow> Affine CheckerboardDrawQuad" where
  "checkerboard_quad c =
     \<lparr>rect = rect100, visible_rect = rect100, quadTransform = affine_identity,
      visibleContentRect = rect100, opacity = 1, ShouldDrawWithBlending = False,
      IsLeftEdge = True, IsTopEdge = True, IsRightEdge = True, IsBottomEdge = True,
      checkerboard_color = c\<rparr>"

definition singular :: Affine where
  "singular = \<lparr>a_sx = 0, a_sy = 1, a_tx = 0, a_ty = 0\<rparr>"

section \<open>Transforms as 4 by 4 matrices\<close>














section \<open>Properties\<close>

subsection \<open>The trace and the cache\<close>

lemma new_calls_append: "gl_calls s' = gl_calls s @ cs \<Longrightarrow> new_calls s s' = cs"
  by (simp add: new_calls_def)

lemma draw_calls_Nil: "draw_calls [] = []"
  by (simp add: draw_calls_def)

lemma draw_calls_append: "draw_calls (xs @ ys) = draw_calls xs @ draw_calls ys"
  by (simp add: draw_calls_def)

lemma draw_calls_Cons:
  "draw_calls (c # cs) = (if is_draw_call c then c # draw_calls cs else draw_calls cs)"
  by (simp add: draw_calls_def)

lemmas draw_simps = draw_calls_Nil draw_calls_append draw_calls_Cons is_draw_call_def

lemma SetBlendEnabled_calls:
  "gl_calls (SetBlendEnabled b s) =
     gl_calls s @ (if b = blend_shadow s then []
                   else [if b then Enable GL_BLEND else Disable GL_BLEND])"
  by (simp add: SetBlendEnabled_def GLC_def)

lemma SetBlendEnabled_no_draw: "draw_calls (new_calls s (SetBlendEnabled b s)) = []"
  by (simp add: new_calls_append [OF SetBlendEnabled_calls] draw_simps)

lemma SetBlendEnabled_fields:
  "blend_shadow (SetBlendEnabled b s) = b"
  "render_pass_textures (SetBlendEnabled b s) = render_pass_textures s"
  "draw_cache (SetBlendEnabled b s) = draw_cache s"
  by (simp_all add: SetBlendEnabled_def GLC_def)


text \<open>A flush of a cache with program id 0 does nothing; any other flush issues
  \<open>flush_calls\<close>, one of which is the indexed draw, and clears the cache.\<close>

lemma Flush_empty: "program_id (draw_cache s) = 0 \<Longrightarrow> FlushTextureQuadCache env s = s"
  by (simp add: FlushTextureQuadCache_def)

lemma Flush_cache:
  "program_id (draw_cache s) \<noteq> 0 \<Longrightarrow>
   draw_cache (FlushTextureQuadCache env s) =
     (draw_cache s)\<lparr>program_id := 0, uv_xform_data := [],
                    vertex_opacity_data := [], matrix_data := []\<rparr>"
  by (simp add: FlushTextureQuadCache_def Let_def)

lemma Flush_gl_calls:
  "gl_calls (FlushTextureQuadCache env s) =
     gl_calls s @ flush_calls env (draw_cache s) (blend_shadow s) (program_shadow s)"
  by (simp add: FlushTextureQuadCache_def flush_calls_def Let_def SetBlendEnabled_def
        SetUseProgram_def GLC_def)

lemma flush_calls_draw:
  "draw_calls (flush_calls env c b p) =
     (if program_id c = 0 then []
      else [DrawElements GL_TRIANGLES (6 * length (matrix_data c)) GL_UNSIGNED_SHORT 0])"
  by (simp add: flush_calls_def draw_simps)

lemma Flush_calls:
  "\<exists>cs. gl_calls (FlushTextureQuadCache env s) = gl_calls s @ cs \<and>
        draw_calls cs =
          (if program_id (draw_cache s) = 0 then []
           else [DrawElements GL_TRIANGLES (6 * length (matrix_data (draw_cache s)))
                   GL_UNSIGNED_SHORT 0])"
  using Flush_gl_calls [of env s] flush_calls_draw [of env "draw_cache s"] by blast

lemma Flush_program_id: "program_id (draw_cache (FlushTextureQuadCache env s)) = 0"
  by (cases "program_id (draw_cache s) = 0") (simp_all add: Flush_empty Flush_cache)

lemma Flush_cache_empty:
  "cache_consistent (draw_cache s) \<Longrightarrow> cache_empty (draw_cache (FlushTextureQuadCache env s))"
  by (cases "program_id (draw_cache s) = 0")
     (auto simp add: Flush_empty Flush_cache cache_consistent_def cache_empty_def)

lemma Flush_consistent:
  "cache_consistent (draw_cache s) \<Longrightarrow>
   cache_consistent (draw_cache (FlushTextureQuadCache env s))"
  using Flush_cache_empty [of s env] by (simp add: cache_consistent_def cache_empty_def)

lemma cache_empty_consistent: "cache_empty c \<Longrightarrow> cache_consistent c"
  by (simp add: cache_empty_def cache_consistent_def)

lemma holds_batch_consistent:
  "holds_batch env q n c \<Longrightarrow> program (texture_binding env q) \<noteq> 0 \<Longrightarrow> cache_consistent c"
  by (simp add: holds_batch_def cache_consistent_def)

text \<open>Enqueuing: a quad that joins the batch adds no call and one entry; a quad that
  starts a batch flushes first. After a quad was enqueued the cache carries its key.\<close>

lemma Enqueue_join:
  "\<not> starts_new_batch env (draw_cache s) q \<Longrightarrow>
   gl_calls (EnqueueTextureQuad env frame q s) = gl_calls s \<and>
   length (matrix_data (draw_cache (EnqueueTextureQuad env frame q s))) =
     Suc (length (matrix_data (draw_cache s))) \<and>
   (\<forall>n. holds_batch env q n (draw_cache s) \<longrightarrow>
      holds_batch env q (Suc n) (draw_cache (EnqueueTextureQuad env frame q s)))"
  by (simp add: EnqueueTextureQuad_def Let_def holds_batch_def split: prod.splits)

lemma Enqueue_calls_new:
  "starts_new_batch env (draw_cache s) q \<Longrightarrow>
   gl_calls (EnqueueTextureQuad env frame q s) = gl_calls (FlushTextureQuadCache env s)"
  by (simp add: EnqueueTextureQuad_def Let_def split: prod.splits)

lemma Enqueue_new:
  assumes "starts_new_batch env (draw_cache s) q" and "cache_consistent (draw_cache s)"
  shows "holds_batch env q 1 (draw_cache (EnqueueTextureQuad env frame q s)) \<and>
         (\<exists>cs. gl_calls (EnqueueTextureQuad env frame q s) = gl_calls s @ cs \<and>
            draw_calls cs =
              (if program_id (draw_cache s) = 0 then []
               else [DrawElements GL_TRIANGLES (6 * length (matrix_data (draw_cache s)))
                       GL_UNSIGNED_SHORT 0]))"
proof -
  let ?f = "FlushTextureQuadCache env s"
  have e: "cache_empty (draw_cache ?f)"
    using assms(2) by (rule Flush_cache_empty)
  have "holds_batch env q 1 (draw_cache (EnqueueTextureQuad env frame q s))"
    using assms(1) e
    by (simp add: EnqueueTextureQuad_def Let_def holds_batch_def cache_empty_def
          split: prod.splits)
  then show ?thesis
    using Flush_calls [of env s] Enqueue_calls_new [OF assms(1), of frame] by simp
qed

lemma Enqueue_key:
  "holds_batch env q (length (matrix_data (draw_cache (EnqueueTextureQuad env frame q s))))
     (draw_cache (EnqueueTextureQuad env frame q s))"
  by (cases "starts_new_batch env (draw_cache s) q")
     (simp_all add: EnqueueTextureQuad_def Let_def holds_batch_def starts_new_batch_def
        split: prod.splits)

lemma Enqueue_consistent:
  "program (texture_binding env q) \<noteq> 0 \<Longrightarrow>
   cache_consistent (draw_cache (EnqueueTextureQuad env frame q s))"
  using Enqueue_key [of env q frame s] by (rule holds_batch_consistent)


lemma holds_batch_join:
  "holds_batch env q0 n c \<Longrightarrow> batch_compatible env q0 q \<Longrightarrow> n < 8
   \<Longrightarrow> \<not> starts_new_batch env c q"
  by (auto simp add: holds_batch_def batch_compatible_def starts_new_batch_def)

lemma holds_batch_compatible:
  "holds_batch env q0 n c \<Longrightarrow> batch_compatible env q0 q \<Longrightarrow> holds_batch env q n c"
  by (auto simp add: holds_batch_def batch_compatible_def)

lemma cache_empty_starts:
  "cache_empty c \<Longrightarrow> program (texture_binding env q) \<noteq> 0 \<Longrightarrow> starts_new_batch env c q"
  by (auto simp add: cache_empty_def starts_new_batch_def)

lemma enqueue_all_snoc:
  "enqueue_all env frame (qs @ [q]) s =
     EnqueueTextureQuad env frame q (enqueue_all env frame qs s)"
  by (simp add: enqueue_all_def)

lemma enqueue_all_batch:
  "cache_empty (draw_cache s) \<Longrightarrow> qs \<noteq> [] \<Longrightarrow> length qs \<le> 8 \<Longrightarrow>
   \<forall>q \<in> set qs. batch_compatible env (hd qs) q \<Longrightarrow>
   program (texture_binding env (hd qs)) \<noteq> 0 \<Longrightarrow>
   gl_calls (enqueue_all env frame qs s) = gl_calls s \<and>
   holds_batch env (hd qs) (length qs) (draw_cache (enqueue_all env frame qs s))"
proof (induction qs rule: rev_induct)
  case Nil
  then show ?case by simp
next
  case (snoc x xs)
  show ?case
  proof (cases "xs = []")
    case True
    have st: "starts_new_batch env (draw_cache s) x"
      using snoc.prems True by (simp add: cache_empty_starts)
    have "FlushTextureQuadCache env s = s"
      using snoc.prems(1) by (simp add: Flush_empty cache_empty_def)
    then show ?thesis
      using Enqueue_new [OF st cache_empty_consistent [OF snoc.prems(1)], of frame]
        Enqueue_calls_new [OF st, of frame] True
      by (simp add: enqueue_all_def)
  next
    case False
    let ?s = "enqueue_all env frame xs s"
    have hd: "hd (xs @ [x]) = hd xs" using False by simp
    have ih: "gl_calls ?s = gl_calls s" "holds_batch env (hd xs) (length xs) (draw_cache ?s)"
      using snoc.IH snoc.prems False hd by auto
    have c: "batch_compatible env (hd xs) x" using snoc.prems(4) hd by simp
    have n: "length xs < 8" using snoc.prems(3) by simp
    have j: "\<not> starts_new_batch env (draw_cache ?s) x"
      using holds_batch_join [OF ih(2) c n] .
    have hx: "holds_batch env x (length xs) (draw_cache ?s)"
      using holds_batch_compatible [OF ih(2) c] .
    have "holds_batch env x (Suc (length xs))
            (draw_cache (EnqueueTextureQuad env frame x ?s))"
      using Enqueue_join [OF j, of frame] hx by blast
    then have "holds_batch env (hd xs) (Suc (length xs))
                 (draw_cache (EnqueueTextureQuad env frame x ?s))"
      using c by (auto simp add: holds_batch_def batch_compatible_def)
    then show ?thesis
      using Enqueue_join [OF j, of frame] ih(1) hd by (simp add: enqueue_all_snoc)
  qed
qed

lemma Flush_batch:
  assumes "holds_batch env q n (draw_cache s)" and "program (texture_binding env q) \<noteq> 0"
  shows "draw_calls (new_calls s (FlushTextureQuadCache env s)) =
           [DrawElements GL_TRIANGLES (6 * n) GL_UNSIGNED_SHORT 0] \<and>
         cache_empty (draw_cache (FlushTextureQuadCache env s))"
proof -
  have p: "program_id (draw_cache s) \<noteq> 0" "length (matrix_data (draw_cache s)) = n"
    using assms by (simp_all add: holds_batch_def)
  obtain cs where cs: "gl_calls (FlushTextureQuadCache env s) = gl_calls s @ cs"
    "draw_calls cs = [DrawElements GL_TRIANGLES (6 * n) GL_UNSIGNED_SHORT 0]"
    using Flush_calls [of env s] p by auto
  show ?thesis
    using cs Flush_cache_empty [OF holds_batch_consistent [OF assms]]
    by (simp add: new_calls_append)
qed




lemma Flush_scissor_fields:
  "is_scissor_enabled (FlushTextureQuadCache env s) = is_scissor_enabled s"
  "scissor_rect (FlushTextureQuadCache env s) = scissor_rect s"
  by (simp_all add: FlushTextureQuadCache_def Let_def SetBlendEnabled_def
        SetUseProgram_def GLC_def)

lemma Flush_scissor_rect_update:
  "gl_calls (FlushTextureQuadCache env (s\<lparr>scissor_rect := r\<rparr>)) =
     gl_calls (FlushTextureQuadCache env s)"
  "draw_cache (FlushTextureQuadCache env (s\<lparr>scissor_rect := r\<rparr>)) =
     draw_cache (FlushTextureQuadCache env s)"
proof -
  show "gl_calls (FlushTextureQuadCache env (s\<lparr>scissor_rect := r\<rparr>)) =
     gl_calls (FlushTextureQuadCache env s)"
    by (simp add: Flush_gl_calls)
  show "draw_cache (FlushTextureQuadCache env (s\<lparr>scissor_rect := r\<rparr>)) =
     draw_cache (FlushTextureQuadCache env s)"
    by (cases "program_id (draw_cache s) = 0") (simp_all add: Flush_empty Flush_cache)
qed

lemma SetScissorTestRect_calls:
  "\<not> (is_scissor_enabled s \<and> r = scissor_rect s) \<Longrightarrow>
   gl_calls (SetScissorTestRect env r s) =
     gl_calls (FlushTextureQuadCache env s)
       @ (if is_scissor_enabled s then [] else [Enable GL_SCISSOR_TEST])
       @ (if r = scissor_rect s then []
          else [Scissor (Rect_x r) (Rect_y r) (Rect_width r) (Rect_height r)]) \<and>
   draw_cache (SetScissorTestRect env r s) = draw_cache (FlushTextureQuadCache env s)"
proof (cases "is_scissor_enabled s")
  case True
  assume "\<not> (is_scissor_enabled s \<and> r = scissor_rect s)"
  with True have ne: "r \<noteq> scissor_rect s" by simp
  show ?thesis
    using True ne
    by (simp add: SetScissorTestRect_def EnsureScissorTestEnabled_def Let_def
          Flush_scissor_rect_update GLC_def)
next
  case False
  let ?f = "FlushTextureQuadCache env s"
  let ?e = "(GLC (Enable GL_SCISSOR_TEST) ?f)\<lparr>is_scissor_enabled := True\<rparr>"
  have e: "EnsureScissorTestEnabled env s = ?e"
    using False by (simp add: EnsureScissorTestEnabled_def Let_def)
  have p: "program_id (draw_cache (?e\<lparr>scissor_rect := r\<rparr>)) = 0"
    by (simp add: GLC_def Flush_program_id)
  show ?thesis
    using False
    by (simp add: SetScissorTestRect_def e Let_def Flush_empty [OF p] Flush_scissor_fields)
       (simp add: GLC_def Flush_scissor_fields)
qed

subsection \<open>Colour bytes\<close>

lemma mask_FF: "(0xFF :: SkColor) = mask 8"
  by (simp add: mask_eq_exp_minus_1)

lemma mask_FFFFFF: "(0xFFFFFF :: SkColor) = mask 24"
  by (simp add: mask_eq_exp_minus_1)

lemma red_byte: "drop_bit 16 w AND 0xFF = drop_bit 16 (w AND 0xFFFFFF) AND 0xFF"
  for w :: SkColor
  unfolding mask_FF mask_FFFFFF by (simp add: drop_bit_take_bit flip: take_bit_eq_mask)

lemma green_byte: "drop_bit 8 w AND 0xFF = drop_bit 8 (w AND 0xFFFFFF) AND 0xFF"
  for w :: SkColor
  unfolding mask_FF mask_FFFFFF by (simp add: drop_bit_take_bit flip: take_bit_eq_mask)

lemma blue_byte: "w AND 0xFF = (w AND 0xFFFFFF) AND 0xFF"
  for w :: SkColor
  unfolding mask_FF mask_FFFFFF by (simp flip: take_bit_eq_mask)

lemma SkColor_rgb:
  fixes c c' :: SkColor
  assumes "c AND 0xFFFFFF = c' AND 0xFFFFFF"
  shows "SkColorGetR c = SkColorGetR c' \<and> SkColorGetG c = SkColorGetG c' \<and>
         SkColorGetB c = SkColorGetB c'"
proof -
  have "drop_bit 16 c AND 0xFF = drop_bit 16 c' AND 0xFF"
    by (simp only: red_byte [of c] red_byte [of c'] assms)
  moreover have "drop_bit 8 c AND 0xFF = drop_bit 8 c' AND 0xFF"
    by (simp only: green_byte [of c] green_byte [of c'] assms)
  moreover have "c AND 0xFF = c' AND 0xFF"
    by (simp only: blue_byte [of c] blue_byte [of c'] assms)
  ultimately show ?thesis
    by (simp only: SkColorGetR_def SkColorGetG_def SkColorGetB_def simp_thms)
qed

subsection \<open>The exact geometry on integer rectangles under integer transforms\<close>

lemma near_integer_of_int: "0 < d \<Longrightarrow> near_integer (of_int k) d"
  by (simp add: near_integer_def)

lemma integer_transform_rectilinear:
  "exact_IsRectilinear
     (fst (affine_MapQuad
             \<lparr>a_sx = of_int a, a_sy = of_int b, a_tx = of_int c, a_ty = of_int d\<rparr>
             (QuadF_of (RectF_of r))))"
  by (simp add: exact_IsRectilinear_def affine_MapQuad_def affine_point_def QuadF_of_def)

lemma integer_transform_nearest:
  "exact_IsNearestRectWithinDistance
     (exact_BoundingBox
        (fst (affine_MapQuad
                \<lparr>a_sx = of_int a, a_sy = of_int b, a_tx = of_int c, a_ty = of_int d\<rparr>
                (QuadF_of (RectF_of r)))))
     kAntiAliasingEpsilon"
proof -
  let ?b = "exact_BoundingBox
        (fst (affine_MapQuad
                \<lparr>a_sx = of_int a, a_sy = of_int b, a_tx = of_int c, a_ty = of_int d\<rparr>
                (QuadF_of (RectF_of r))))"
  let ?x1 = "a * Rect_x r + c" and ?x2 = "a * (Rect_x r + Rect_width r) + c"
  let ?y1 = "b * Rect_y r + d" and ?y2 = "b * (Rect_y r + Rect_height r) + d"
  have x: "RectF_x ?b = of_int (min ?x1 ?x2)"
    by (simp add: exact_BoundingBox_def affine_MapQuad_def affine_point_def QuadF_of_def
          RectF_of_def Let_def flip: of_int_add of_int_mult of_int_min)
  have y: "RectF_y ?b = of_int (min ?y1 ?y2)"
    by (simp add: exact_BoundingBox_def affine_MapQuad_def affine_point_def QuadF_of_def
          RectF_of_def Let_def flip: of_int_add of_int_mult of_int_min)
  have xr: "RectF_x ?b + RectF_width ?b = of_int (max ?x1 ?x2)"
    by (simp add: exact_BoundingBox_def affine_MapQuad_def affine_point_def QuadF_of_def
          RectF_of_def Let_def flip: of_int_add of_int_mult of_int_max)
  have yb: "RectF_y ?b + RectF_height ?b = of_int (max ?y1 ?y2)"
    by (simp add: exact_BoundingBox_def affine_MapQuad_def affine_point_def QuadF_of_def
          RectF_of_def Let_def flip: of_int_add of_int_mult of_int_max)
  have "0 < kAntiAliasingEpsilon"
    by (simp add: kAntiAliasingEpsilon_def)
  then show ?thesis
    unfolding exact_IsNearestRectWithinDistance_def xr yb
    unfolding x y
    by (simp only: near_integer_of_int simp_thms)
qed

lemma affine_identity_integer:
  "affine_identity = \<lparr>a_sx = of_int 1, a_sy = of_int 1, a_tx = of_int 0, a_ty = of_int 0\<rparr>"
  by (simp add: affine_identity_def)

subsection \<open>Matrices\<close>




subsection \<open>Texture batching\<close>

text \<open>
  Claim C1, as amended. Let the cache be empty and let \<open>N\<close> mutually compatible
  textured quads, \<open>1 \<le> N \<le> 8\<close>, whose selected texture program has a non-zero id, be
  enqueued. Enqueuing issues no call; the flush that follows issues exactly one draw
  call, of \<open>6 * N\<close> indices, and leaves the cache empty. If one quad incompatible with
  them (its program id non-zero too) is enqueued after them and the cache is flushed,
  exactly two draw calls are issued, of \<open>6 * N\<close> and of 6 indices, and the cache is
  empty. A flush of the empty cache changes nothing.
\<close>

theorem batch_flush_draws_once:
  assumes empty: "cache_empty (draw_cache s)"
    and nonempty: "qs \<noteq> []" and capacity: "length qs \<le> 8"
    and compatible: "\<forall>q \<in> set qs. \<forall>q' \<in> set qs. batch_compatible env q q'"
    and created: "program (texture_binding env (hd qs)) \<noteq> 0"
  shows
    "new_calls s (enqueue_all env frame qs s) = [] \<and>
     draw_calls (new_calls (enqueue_all env frame qs s)
                   (FlushTextureQuadCache env (enqueue_all env frame qs s))) =
       [DrawElements GL_TRIANGLES (6 * length qs) GL_UNSIGNED_SHORT 0] \<and>
     cache_empty (draw_cache (FlushTextureQuadCache env (enqueue_all env frame qs s))) \<and>
     (\<forall>q'. \<not> batch_compatible env (hd qs) q' \<and> program (texture_binding env q') \<noteq> 0 \<longrightarrow>
        draw_calls (new_calls s
            (FlushTextureQuadCache env
               (EnqueueTextureQuad env frame q' (enqueue_all env frame qs s)))) =
          [DrawElements GL_TRIANGLES (6 * length qs) GL_UNSIGNED_SHORT 0,
           DrawElements GL_TRIANGLES 6 GL_UNSIGNED_SHORT 0] \<and>
        cache_empty (draw_cache
            (FlushTextureQuadCache env
               (EnqueueTextureQuad env frame q' (enqueue_all env frame qs s))))) \<and>
     FlushTextureQuadCache env s = s"
proof -
  let ?s = "enqueue_all env frame qs s"
  have hdc: "\<forall>q \<in> set qs. batch_compatible env (hd qs) q"
    using compatible nonempty by simp
  have b: "gl_calls ?s = gl_calls s" "holds_batch env (hd qs) (length qs) (draw_cache ?s)"
    using enqueue_all_batch [OF empty nonempty capacity hdc created] by auto
  have 1: "new_calls s ?s = []" using b(1) by (simp add: new_calls_def)
  note 2 = Flush_batch [OF b(2) created]
  have 3: "draw_calls (new_calls s
              (FlushTextureQuadCache env (EnqueueTextureQuad env frame q' ?s))) =
          [DrawElements GL_TRIANGLES (6 * length qs) GL_UNSIGNED_SHORT 0,
           DrawElements GL_TRIANGLES 6 GL_UNSIGNED_SHORT 0] \<and>
        cache_empty (draw_cache
              (FlushTextureQuadCache env (EnqueueTextureQuad env frame q' ?s)))"
    if q': "\<not> batch_compatible env (hd qs) q'" "program (texture_binding env q') \<noteq> 0" for q'
  proof -
    let ?e = "EnqueueTextureQuad env frame q' ?s"
    have st: "starts_new_batch env (draw_cache ?s) q'"
      using b(2) q'(1)
      by (auto simp add: holds_batch_def batch_compatible_def starts_new_batch_def)
    have p: "program_id (draw_cache ?s) \<noteq> 0"
      "length (matrix_data (draw_cache ?s)) = length qs"
      using b(2) created by (simp_all add: holds_batch_def)
    obtain cs where cs: "holds_batch env q' 1 (draw_cache ?e)" "gl_calls ?e = gl_calls ?s @ cs"
      "draw_calls cs = [DrawElements GL_TRIANGLES (6 * length qs) GL_UNSIGNED_SHORT 0]"
      using Enqueue_new [OF st holds_batch_consistent [OF b(2) created], of frame] p by auto
    have p': "program_id (draw_cache ?e) \<noteq> 0" "length (matrix_data (draw_cache ?e)) = 1"
      using cs(1) q'(2) by (simp_all add: holds_batch_def)
    obtain ds where ds: "gl_calls (FlushTextureQuadCache env ?e) = gl_calls ?e @ ds"
      "draw_calls ds = [DrawElements GL_TRIANGLES 6 GL_UNSIGNED_SHORT 0]"
      using Flush_calls [of env ?e] p' by auto
    have "gl_calls (FlushTextureQuadCache env ?e) = gl_calls s @ (cs @ ds)"
      using ds(1) cs(2) b(1) by simp
    then have "new_calls s (FlushTextureQuadCache env ?e) = cs @ ds"
      by (rule new_calls_append)
    then show ?thesis
      using cs(3) ds(2) Flush_cache_empty [OF holds_batch_consistent [OF cs(1) q'(2)], of env]
      by (simp add: draw_calls_append)
  qed
  have 4: "FlushTextureQuadCache env s = s"
    using empty by (simp add: Flush_empty cache_empty_def)
  show ?thesis using 1 2 3 4 by blast
qed

lemmas instance_defs =
  exact_env_def lost_context_env_def exact_gfx_def renderer0_def empty_cache_def frame0_def
  root_pass_def transparent_pass_def rect100_def texture_quad_def solid_quad_def
  tile_quad_def render_pass_quad_def checkerboard_quad_def singular_def
  affine_identity_def affine_mul_def affine_IsInvertible_def affine_GetInverse_def
  affine_QuadRectTransform_def affine_Translate_def affine_Scale_def affine_asColMajorf_def

lemmas batching_defs =
  EnqueueTextureQuad_def FlushTextureQuadCache_def starts_new_batch_def texture_binding_def
  GetProgram_def SetBlendEnabled_def SetUseProgram_def GLC_def enqueue_all_def
  batch_compatible_def cache_empty_def cache_consistent_def new_calls_def
  Rect_bottom_right_def Rect_right_def Rect_bottom_def RectF_of_def Let_def

theorem batch_flush_draws_once_witness:
  "cache_empty (draw_cache renderer0) \<and>
   batch_compatible exact_env (texture_quad 3) (texture_quad 3) \<and>
   \<not> batch_compatible exact_env (texture_quad 3) (texture_quad 4) \<and>
   program (texture_binding exact_env (texture_quad 3)) \<noteq> 0 \<and>
   program (texture_binding exact_env (texture_quad 4)) \<noteq> 0 \<and>
   draw_calls
     (new_calls (enqueue_all exact_env frame0 [texture_quad 3, texture_quad 3] renderer0)
        (FlushTextureQuadCache exact_env
           (enqueue_all exact_env frame0 [texture_quad 3, texture_quad 3] renderer0))) =
     [DrawElements GL_TRIANGLES 12 GL_UNSIGNED_SHORT 0] \<and>
   draw_calls
     (new_calls renderer0
        (FlushTextureQuadCache exact_env
           (EnqueueTextureQuad exact_env frame0 (texture_quad 4)
              (enqueue_all exact_env frame0 [texture_quad 3, texture_quad 3] renderer0)))) =
     [DrawElements GL_TRIANGLES 12 GL_UNSIGNED_SHORT 0,
      DrawElements GL_TRIANGLES 6 GL_UNSIGNED_SHORT 0]"
proof -
  have e: "cache_empty (draw_cache renderer0)"
    by (simp add: renderer0_def empty_cache_def cache_empty_def)
  have c: "batch_compatible exact_env (texture_quad 3) (texture_quad 3)"
    by (simp add: batch_compatible_def)
  have n: "\<not> batch_compatible exact_env (texture_quad 3) (texture_quad 4)"
    by (simp add: batch_compatible_def texture_quad_def)
  have p: "program (texture_binding exact_env (texture_quad k)) \<noteq> 0" for k
    by (simp add: texture_binding_def GetProgram_def exact_env_def Let_def)
  have m: "\<forall>q \<in> set [texture_quad 3, texture_quad 3].
             \<forall>q' \<in> set [texture_quad 3, texture_quad 3]. batch_compatible exact_env q q'"
    using c by simp
  have h: "program (texture_binding exact_env (hd [texture_quad 3, texture_quad 3])) \<noteq> 0"
    using p [of 3] by simp
  show ?thesis
    using batch_flush_draws_once
            [OF e _ _ m h, of frame0] e c n p [of 3] p [of 4]
    by simp
qed

theorem batch_flush_lost_context_counterexample:
  "cache_empty (draw_cache renderer0) \<and>
   batch_compatible lost_context_env (texture_quad 3) (texture_quad 3) \<and>
   draw_calls
     (new_calls (enqueue_all lost_context_env frame0 [texture_quad 3] renderer0)
        (FlushTextureQuadCache lost_context_env
           (enqueue_all lost_context_env frame0 [texture_quad 3] renderer0))) = [] \<and>
   \<not> cache_empty (draw_cache
        (FlushTextureQuadCache lost_context_env
           (enqueue_all lost_context_env frame0 [texture_quad 3] renderer0)))"
proof -
  have p: "program_id (draw_cache
             (enqueue_all lost_context_env frame0 [texture_quad 3] renderer0)) = 0"
    by (simp add: batching_defs instance_defs)
  have m: "matrix_data (draw_cache
             (enqueue_all lost_context_env frame0 [texture_quad 3] renderer0)) \<noteq> []"
    by (simp add: enqueue_all_def EnqueueTextureQuad_def Let_def split: prod.splits)
  show ?thesis
    using m
    by (simp add: Flush_empty [OF p] draw_calls_Nil new_calls_def)
       (simp add: cache_empty_def batch_compatible_def renderer0_def empty_cache_def)
qed





text \<open>
  Claim C5, as amended. In every state whose cache is consistent (a cache with
  program id 0 holds no per-instance data, which a flush preserves and the enqueuing
  of a quad with a non-zero program id establishes): a quad of any material other
  than \<open>TEXTURE_CONTENT\<close> is dispatched on the flushed state, whose cache is empty;
  \<open>EnsureScissorTestEnabled\<close>, \<open>EnsureScissorTestDisabled\<close> and \<open>SetScissorTestRect\<close>
  either change nothing or flush first, issue their scissor calls after the calls of
  the flush and leave the cache empty; \<open>FinishDrawingQuadList\<close> leaves the cache
  empty.
\<close>

theorem cache_flushed_at_boundaries:
  assumes "cache_consistent (draw_cache s)"
  shows
    "(\<not> is_TEXTURE_CONTENT quad \<longrightarrow>
        DoDrawQuad env frame quad s =
          DispatchQuad env frame quad (FlushTextureQuadCache env s)) \<and>
     cache_empty (draw_cache (FlushTextureQuadCache env s)) \<and>
     (is_scissor_enabled s \<longrightarrow> EnsureScissorTestEnabled env s = s) \<and>
     (\<not> is_scissor_enabled s \<longrightarrow>
        gl_calls (EnsureScissorTestEnabled env s) =
          gl_calls (FlushTextureQuadCache env s) @ [Enable GL_SCISSOR_TEST] \<and>
        cache_empty (draw_cache (EnsureScissorTestEnabled env s))) \<and>
     (\<not> is_scissor_enabled s \<longrightarrow> EnsureScissorTestDisabled env s = s) \<and>
     (is_scissor_enabled s \<longrightarrow>
        gl_calls (EnsureScissorTestDisabled env s) =
          gl_calls (FlushTextureQuadCache env s) @ [Disable GL_SCISSOR_TEST] \<and>
        cache_empty (draw_cache (EnsureScissorTestDisabled env s))) \<and>
     (is_scissor_enabled s \<and> r = scissor_rect s \<longrightarrow> SetScissorTestRect env r s = s) \<and>
     (\<not> (is_scissor_enabled s \<and> r = scissor_rect s) \<longrightarrow>
        gl_calls (SetScissorTestRect env r s) =
          gl_calls (FlushTextureQuadCache env s)
            @ (if is_scissor_enabled s then [] else [Enable GL_SCISSOR_TEST])
            @ (if r = scissor_rect s then []
               else [Scissor (Rect_x r) (Rect_y r) (Rect_width r) (Rect_height r)]) \<and>
        cache_empty (draw_cache (SetScissorTestRect env r s))) \<and>
     cache_empty (draw_cache (FinishDrawingQuadList env s))"
proof -
  note e = Flush_cache_empty [OF assms, of env]
  have 1: "\<not> is_TEXTURE_CONTENT quad \<longrightarrow>
        DoDrawQuad env frame quad s =
          DispatchQuad env frame quad (FlushTextureQuadCache env s)"
    by (simp add: DoDrawQuad_def)
  have 3: "is_scissor_enabled s \<longrightarrow> EnsureScissorTestEnabled env s = s"
    by (simp add: EnsureScissorTestEnabled_def)
  have 4: "\<not> is_scissor_enabled s \<longrightarrow>
        gl_calls (EnsureScissorTestEnabled env s) =
          gl_calls (FlushTextureQuadCache env s) @ [Enable GL_SCISSOR_TEST] \<and>
        cache_empty (draw_cache (EnsureScissorTestEnabled env s))"
    using e by (simp add: EnsureScissorTestEnabled_def Let_def GLC_def)
  have 5: "\<not> is_scissor_enabled s \<longrightarrow> EnsureScissorTestDisabled env s = s"
    by (simp add: EnsureScissorTestDisabled_def)
  have 6: "is_scissor_enabled s \<longrightarrow>
        gl_calls (EnsureScissorTestDisabled env s) =
          gl_calls (FlushTextureQuadCache env s) @ [Disable GL_SCISSOR_TEST] \<and>
        cache_empty (draw_cache (EnsureScissorTestDisabled env s))"
    using e by (simp add: EnsureScissorTestDisabled_def Let_def GLC_def)
  have 7: "is_scissor_enabled s \<and> r = scissor_rect s \<longrightarrow> SetScissorTestRect env r s = s"
    by (simp add: SetScissorTestRect_def EnsureScissorTestEnabled_def Let_def)
  have 8: "\<not> (is_scissor_enabled s \<and> r = scissor_rect s) \<longrightarrow>
        gl_calls (SetScissorTestRect env r s) =
          gl_calls (FlushTextureQuadCache env s)
            @ (if is_scissor_enabled s then [] else [Enable GL_SCISSOR_TEST])
            @ (if r = scissor_rect s then []
               else [Scissor (Rect_x r) (Rect_y r) (Rect_width r) (Rect_height r)]) \<and>
        cache_empty (draw_cache (SetScissorTestRect env r s))"
    using SetScissorTestRect_calls [of s r env] e by simp
  have 9: "cache_empty (draw_cache (FinishDrawingQuadList env s))"
    using e by (simp add: FinishDrawingQuadList_def)
  show ?thesis using 1 e 3 4 5 6 7 8 9 by blast
qed

theorem cache_flushed_at_boundaries_witness:
  "cache_consistent
     (draw_cache (EnqueueTextureQuad exact_env frame0 (texture_quad 3) renderer0)) \<and>
   \<not> is_TEXTURE_CONTENT (SOLID_COLOR (solid_quad affine_identity)) \<and>
   \<not> cache_empty
       (draw_cache (EnqueueTextureQuad exact_env frame0 (texture_quad 3) renderer0)) \<and>
   DoDrawQuad exact_env frame0 (SOLID_COLOR (solid_quad affine_identity))
       (EnqueueTextureQuad exact_env frame0 (texture_quad 3) renderer0) =
     DispatchQuad exact_env frame0 (SOLID_COLOR (solid_quad affine_identity))
       (FlushTextureQuadCache exact_env
          (EnqueueTextureQuad exact_env frame0 (texture_quad 3) renderer0)) \<and>
   cache_empty
     (draw_cache
        (FlushTextureQuadCache exact_env
           (EnqueueTextureQuad exact_env frame0 (texture_quad 3) renderer0))) \<and>
   cache_empty
     (draw_cache
        (SetScissorTestRect exact_env rect100
           (EnqueueTextureQuad exact_env frame0 (texture_quad 3) renderer0))) \<and>
   cache_empty
     (draw_cache
        (FinishDrawingQuadList exact_env
           (EnqueueTextureQuad exact_env frame0 (texture_quad 3) renderer0)))"
proof -
  let ?s = "EnqueueTextureQuad exact_env frame0 (texture_quad 3) renderer0"
  have k: "cache_consistent (draw_cache ?s)"
    by (rule Enqueue_consistent)
       (simp add: texture_binding_def GetProgram_def exact_env_def Let_def)
  have t: "\<not> is_TEXTURE_CONTENT (SOLID_COLOR (solid_quad affine_identity))"
    by (simp add: is_TEXTURE_CONTENT_def)
  have m: "\<not> cache_empty (draw_cache ?s)"
    by (simp add: cache_empty_def EnqueueTextureQuad_def Let_def split: prod.splits)
  have d: "\<not> is_scissor_enabled ?s"
    by (simp add: batching_defs instance_defs split: prod.splits)
  show ?thesis
    using cache_flushed_at_boundaries
            [OF k, of "SOLID_COLOR (solid_quad affine_identity)" exact_env frame0 rect100]
          k t m d
    by simp
qed

theorem cache_not_flushed_lost_context_counterexample:
  "cache_empty (draw_cache renderer0) \<and>
   \<not> cache_empty
       (draw_cache
          (FinishDrawingQuadList lost_context_env
             (EnqueueTextureQuad lost_context_env frame0 (texture_quad 3) renderer0))) \<and>
   DoDrawQuad lost_context_env frame0 (SOLID_COLOR (solid_quad affine_identity))
       (EnqueueTextureQuad lost_context_env frame0 (texture_quad 3) renderer0) =
     DispatchQuad lost_context_env frame0 (SOLID_COLOR (solid_quad affine_identity))
       (EnqueueTextureQuad lost_context_env frame0 (texture_quad 3) renderer0) \<and>
   \<not> cache_empty
       (draw_cache (EnqueueTextureQuad lost_context_env frame0 (texture_quad 3) renderer0))"
proof -
  let ?s = "EnqueueTextureQuad lost_context_env frame0 (texture_quad 3) renderer0"
  have p: "program_id (draw_cache ?s) = 0"
    by (simp add: batching_defs instance_defs)
  have m: "\<not> cache_empty (draw_cache ?s)"
    by (simp add: cache_empty_def EnqueueTextureQuad_def Let_def split: prod.splits)
  have e: "cache_empty (draw_cache renderer0)"
    by (simp add: renderer0_def empty_cache_def cache_empty_def)
  show ?thesis
    using m e
    by (simp add: FinishDrawingQuadList_def DoDrawQuad_def is_TEXTURE_CONTENT_def
          Flush_empty [OF p])
qed


subsection \<open>Anti-aliasing and blending\<close>

text \<open>
  Claim C2. Whatever the geometry library computes: when the device-space quad is
  rectilinear and its bounding box is within \<open>1/1024\<close> of the nearest integer
  rectangle, \<open>SetupQuadForAntialiasing\<close> returns \<open>false\<close> and leaves the local quad
  and the edge array as they were. With the exact geometry, every quad (its rectangle
  has integer coordinates by type) under a transform that scales and translates by
  integers is such a quad, and the identity is such a transform.
\<close>

theorem no_antialiasing_on_pixel_aligned_quads:
  "(IsRectilinear g
      (fst (MapQuad g device_transform (QuadF_of (RectF_of (visibleContentRect quad))))) \<and>
    IsNearestRectWithinDistance g
      (BoundingBox g
         (fst (MapQuad g device_transform (QuadF_of (RectF_of (visibleContentRect quad))))))
      kAntiAliasingEpsilon \<longrightarrow>
    SetupQuadForAntialiasing g device_transform quad local_quad edge =
      (False, local_quad, edge)) \<and>
   kAntiAliasingEpsilon = 1 / 1024 \<and>
   SetupQuadForAntialiasing exact_gfx
       \<lparr>a_sx = of_int a, a_sy = of_int b, a_tx = of_int c, a_ty = of_int d\<rparr>
       exact_quad local_quad edge =
     (False, local_quad, edge) \<and>
   SetupQuadForAntialiasing exact_gfx affine_identity exact_quad local_quad edge =
     (False, local_quad, edge)"
proof -
  have 1: "SetupQuadForAntialiasing g t q local_quad edge = (False, local_quad, edge)"
    if "IsRectilinear g (fst (MapQuad g t (QuadF_of (RectF_of (visibleContentRect q)))))"
      and "IsNearestRectWithinDistance g
             (BoundingBox g (fst (MapQuad g t (QuadF_of (RectF_of (visibleContentRect q))))))
             kAntiAliasingEpsilon"
    for g :: "('x, 'y, 'w) gfx" and t and q :: "('x, 'v) DrawQuad_scheme"
    using that by (simp add: SetupQuadForAntialiasing_def Let_def case_prod_unfold)
  have 2: "SetupQuadForAntialiasing exact_gfx
       \<lparr>a_sx = of_int a, a_sy = of_int b, a_tx = of_int c, a_ty = of_int d\<rparr>
       exact_quad local_quad edge =
     (False, local_quad, edge)" for a b c d
    by (rule 1)
       (simp_all add: exact_gfx_def integer_transform_rectilinear integer_transform_nearest)
  have 3: "SetupQuadForAntialiasing exact_gfx affine_identity exact_quad local_quad edge =
     (False, local_quad, edge)"
    unfolding affine_identity_integer by (rule 2)
  show ?thesis
    using 1 [of g device_transform quad] 2 [of a b c d] 3
    by (simp add: kAntiAliasingEpsilon_def)
qed

lemmas geometry_defs =
  SetupQuadForAntialiasing_def quad_use_aa_def quad_device_transform_def
  render_pass_device_transform_def
  affine_MapQuad_def affine_point_def exact_IsRectilinear_def exact_BoundingBox_def
  exact_IsNearestRectWithinDistance_def near_integer_def kAntiAliasingEpsilon_def
  QuadF_of_def RectF_of_def IsEdge_def Let_def

theorem no_antialiasing_on_pixel_aligned_quads_witness:
  "IsRectilinear exact_gfx
     (fst (MapQuad exact_gfx \<lparr>a_sx = 2, a_sy = 2, a_tx = 5, a_ty = 7\<rparr>
             (QuadF_of (RectF_of (visibleContentRect (solid_quad affine_identity)))))) \<and>
   IsNearestRectWithinDistance exact_gfx
     (BoundingBox exact_gfx
        (fst (MapQuad exact_gfx \<lparr>a_sx = 2, a_sy = 2, a_tx = 5, a_ty = 7\<rparr>
                (QuadF_of (RectF_of (visibleContentRect (solid_quad affine_identity)))))))
     kAntiAliasingEpsilon \<and>
   SetupQuadForAntialiasing exact_gfx \<lparr>a_sx = 2, a_sy = 2, a_tx = 5, a_ty = 7\<rparr>
       (solid_quad affine_identity) SharedGeometryQuad [] =
     (False, SharedGeometryQuad, [])"
proof -
  have r: "IsRectilinear exact_gfx
     (fst (MapQuad exact_gfx \<lparr>a_sx = 2, a_sy = 2, a_tx = 5, a_ty = 7\<rparr>
             (QuadF_of (RectF_of (visibleContentRect (solid_quad affine_identity))))))"
    by (simp add: geometry_defs instance_defs)
  have n: "IsNearestRectWithinDistance exact_gfx
     (BoundingBox exact_gfx
        (fst (MapQuad exact_gfx \<lparr>a_sx = 2, a_sy = 2, a_tx = 5, a_ty = 7\<rparr>
                (QuadF_of (RectF_of (visibleContentRect (solid_quad affine_identity)))))))
     kAntiAliasingEpsilon"
    by (simp add: geometry_defs instance_defs)
  show ?thesis
    using no_antialiasing_on_pixel_aligned_quads
            [of exact_gfx "\<lparr>a_sx = 2, a_sy = 2, a_tx = 5, a_ty = 7\<rparr>"
               "solid_quad affine_identity" SharedGeometryQuad "[]",
             THEN conjunct1] r n
    by simp
qed





subsection \<open>Skipped quads\<close>

text \<open>
  Claim C3. When the current render pass of the frame has a transparent background,
  \<open>DrawBackgroundFilters\<close> returns no texture, whatever the quad's background
  filters are; it makes no call and leaves the frame as it was.
\<close>

theorem background_filters_skipped_on_transparent_pass:
  "current_render_pass frame = Some pass \<and> has_transparent_background pass \<longrightarrow>
   DrawBackgroundFilters env frame quad contents_device_transform
       contents_device_transform_inverse s =
     Inr (None, frame, s)"
  by (simp add: DrawBackgroundFilters_def)

theorem background_filters_skipped_on_transparent_pass_witness:
  "current_render_pass (frame0\<lparr>current_render_pass := Some transparent_pass\<rparr>) =
     Some transparent_pass \<and>
   has_transparent_background transparent_pass \<and>
   background_filters (render_pass_quad affine_identity [1, 2]) \<noteq> [] \<and>
   DrawBackgroundFilters exact_env (frame0\<lparr>current_render_pass := Some transparent_pass\<rparr>)
       (render_pass_quad affine_identity [1, 2]) affine_identity affine_identity renderer0 =
     Inr (None, frame0\<lparr>current_render_pass := Some transparent_pass\<rparr>, renderer0)"
  using background_filters_skipped_on_transparent_pass
          [of "frame0\<lparr>current_render_pass := Some transparent_pass\<rparr>" transparent_pass
             exact_env "render_pass_quad affine_identity [1, 2]" affine_identity
             affine_identity renderer0]
  by (simp add: transparent_pass_def render_pass_quad_def)

text \<open>
  Claim C4. A render-pass quad whose pass id has no entry in the render-pass texture
  table, or an entry whose resource id is 0, is a silent no-op: \<open>DrawRenderPassQuad\<close>
  returns normally after setting the blend flag, and issues no draw call.
\<close>

theorem render_pass_quad_without_texture_is_skipped:
  "render_pass_textures s (render_pass_id quad) = None \<or>
   (\<exists>t. render_pass_textures s (render_pass_id quad) = Some t \<and> res_id t = 0) \<longrightarrow>
   DrawRenderPassQuad env frame quad s =
     Inr (frame, SetBlendEnabled (ShouldDrawWithBlending quad) s) \<and>
   draw_calls (new_calls s (SetBlendEnabled (ShouldDrawWithBlending quad) s)) = []"
  by (auto simp add: DrawRenderPassQuad_def SetBlendEnabled_fields SetBlendEnabled_no_draw)

theorem render_pass_quad_without_texture_is_skipped_witness:
  "render_pass_textures renderer0 (render_pass_id (render_pass_quad affine_identity [])) = None \<and>
   DrawRenderPassQuad exact_env frame0 (render_pass_quad affine_identity []) renderer0 =
     Inr (frame0, renderer0\<lparr>gl_calls := [Disable GL_BLEND], blend_shadow := False\<rparr>) \<and>
   draw_calls [Disable GL_BLEND] = []"
proof -
  have n: "render_pass_textures renderer0
             (render_pass_id (render_pass_quad affine_identity [])) = None"
    by (simp add: renderer0_def)
  have b: "SetBlendEnabled (ShouldDrawWithBlending (render_pass_quad affine_identity []))
             renderer0 = renderer0\<lparr>gl_calls := [Disable GL_BLEND], blend_shadow := False\<rparr>"
    by (simp add: SetBlendEnabled_def GLC_def render_pass_quad_def renderer0_def)
  show ?thesis
    using render_pass_quad_without_texture_is_skipped
            [of renderer0 "render_pass_quad affine_identity []" exact_env frame0] n
    by (simp add: b draw_simps)
qed




subsection \<open>Framebuffer orientation\<close>

text \<open>
  Claim C9. Binding the framebuffer to a texture (directly or through
  \<open>UseScopedTexture\<close>) computes the matrices with the flip flag \<open>false\<close>, and
  \<open>FlippedFramebuffer\<close>, which tells how the output surface is treated, is \<open>true\<close>.
\<close>

theorem render_to_texture_is_never_flipped:
  "fst (snd (BindFramebufferToTexture env frame texture framebuffer_rect s)) =
     InitializeMatrices env frame framebuffer_rect False \<and>
   fst (snd (UseScopedTexture env frame texture framebuffer_rect s)) =
     InitializeMatrices env
       (frame\<lparr>current_render_pass := None, current_texture := Some texture\<rparr>)
       framebuffer_rect False \<and>
   FlippedFramebuffer = True"
  by (simp add: BindFramebufferToTexture_def UseScopedTexture_def FlippedFramebuffer_def
        Let_def)

subsection \<open>Checkerboard colour\<close>

text \<open>
  Claim C10. \<open>DrawCheckerboardQuad\<close> uploads the colour uniform with the red, green
  and blue bytes of the quad's colour and the constant 1 as alpha, and uploads the
  quad's opacity in a uniform of its own; two checkerboard quads that differ only in
  the alpha byte of their colour make the renderer do exactly the same.
\<close>

theorem checkerboard_ignores_color_alpha:
  "Uniform4f (location (GetProgram env TileCheckerboardProgram TexCoordPrecisionNA) u_color)
       (SkColorGetR (checkerboard_color quad) * (1 / 255))
       (SkColorGetG (checkerboard_color quad) * (1 / 255))
       (SkColorGetB (checkerboard_color quad) * (1 / 255))
       1
     \<in> set (new_calls s (DrawCheckerboardQuad env frame quad s)) \<and>
   (location (GetProgram env TileCheckerboardProgram TexCoordPrecisionNA) u_alpha \<noteq> - 1 \<longrightarrow>
      Uniform1f (location (GetProgram env TileCheckerboardProgram TexCoordPrecisionNA) u_alpha)
          (opacity quad)
        \<in> set (new_calls s (DrawCheckerboardQuad env frame quad s))) \<and>
   (c AND 0xFFFFFF = checkerboard_color quad AND 0xFFFFFF \<longrightarrow>
      DrawCheckerboardQuad env frame (quad\<lparr>checkerboard_color := c\<rparr>) s =
        DrawCheckerboardQuad env frame quad s)"
proof -
  have calls:
    "Uniform4f (location (GetProgram env TileCheckerboardProgram TexCoordPrecisionNA) u_color)
         (SkColorGetR (checkerboard_color quad) * (1 / 255))
         (SkColorGetG (checkerboard_color quad) * (1 / 255))
         (SkColorGetB (checkerboard_color quad) * (1 / 255))
         1
       \<in> set (new_calls s (DrawCheckerboardQuad env frame quad s))"
    "location (GetProgram env TileCheckerboardProgram TexCoordPrecisionNA) u_alpha \<noteq> - 1 \<longrightarrow>
       Uniform1f (location (GetProgram env TileCheckerboardProgram TexCoordPrecisionNA) u_alpha)
           (opacity quad)
         \<in> set (new_calls s (DrawCheckerboardQuad env frame quad s))"
    by (simp_all add: DrawCheckerboardQuad_def Let_def new_calls_def SetBlendEnabled_def
          SetUseProgram_def GLC_def SetShaderOpacity_def DrawQuadGeometry_def)
  have same: "DrawCheckerboardQuad env frame (quad\<lparr>checkerboard_color := c\<rparr>) s =
        DrawCheckerboardQuad env frame quad s"
    if "c AND 0xFFFFFF = checkerboard_color quad AND 0xFFFFFF"
    using SkColor_rgb [OF that] by (simp add: DrawCheckerboardQuad_def Let_def)
  show ?thesis
    using calls same by blast
qed

theorem checkerboard_ignores_color_alpha_witness:
  "(0x80112233 :: SkColor) AND 0xFFFFFF =
     checkerboard_color (checkerboard_quad 0xFF112233) AND 0xFFFFFF \<and>
   DrawCheckerboardQuad exact_env frame0 (checkerboard_quad 0x80112233) renderer0 =
     DrawCheckerboardQuad exact_env frame0 (checkerboard_quad 0xFF112233) renderer0 \<and>
   Uniform1f 0 1
     \<in> set (new_calls renderer0
               (DrawCheckerboardQuad exact_env frame0 (checkerboard_quad 0xFF112233) renderer0))"
proof -
  have a: "(0x80112233 :: SkColor) AND 0xFFFFFF =
     checkerboard_color (checkerboard_quad 0xFF112233) AND 0xFFFFFF"
    by (simp add: checkerboard_quad_def)
  have u: "(checkerboard_quad 0xFF112233)\<lparr>checkerboard_color := 0x80112233\<rparr> =
     checkerboard_quad 0x80112233"
    by (simp add: checkerboard_quad_def)
  have l: "location (GetProgram exact_env TileCheckerboardProgram TexCoordPrecisionNA) u_alpha
             = 0"
    by (simp add: GetProgram_def exact_env_def)
  have o: "opacity (checkerboard_quad 0xFF112233) = 1"
    by (simp add: checkerboard_quad_def)
  show ?thesis
    using checkerboard_ignores_color_alpha
            [of exact_env "checkerboard_quad 0xFF112233" renderer0 frame0 "0x80112233"] a
    by (simp add: u l o)
qed

end
